theory Spec2Isabelle
  imports Complex_Main
begin

section \<open>Values: strings, floats, JSON\<close>

text \<open>
  A Python \<^verbatim>\<open>str\<close> is a sequence of Unicode code points; it is modelled as a list of
  natural numbers. \<open>ascii\<close> embeds an ASCII literal. The non-ASCII letters of the source
  are written by code point: 206 (I circumflex), 244 (o circumflex), 233 (e acute),
  232 (e grave).
\<close>

type_synonym ustr = "nat list"

definition ascii :: "string \<Rightarrow> ustr" where
  "ascii s = map of_char s"

text \<open>
  A Python \<^verbatim>\<open>float\<close> is an IEEE binary64 value. A finite one is carried by the real
  number it denotes (the sign of zero is not kept: both zeros are \<open>Fin 0\<close>, they compare
  equal and are both false).
\<close>

datatype pyfloat = Fin real | PInf | NInf | NaN

definition pow2 :: "int \<Rightarrow> real" where
  "pow2 e = (if 0 \<le> e then 2 ^ nat e else 1 / 2 ^ nat (- e))"

text \<open>Rounding to the nearest integer, a tie going to the even neighbour.\<close>

definition round_half_even :: "real \<Rightarrow> int" where
  "round_half_even q =
     (if q - of_int \<lfloor>q\<rfloor> < 1 / 2 then \<lfloor>q\<rfloor>
      else if 1 / 2 < q - of_int \<lfloor>q\<rfloor> then \<lfloor>q\<rfloor> + 1
      else if even \<lfloor>q\<rfloor> then \<lfloor>q\<rfloor> else \<lfloor>q\<rfloor> + 1)"

text \<open>
  \<open>binexp q\<close> is the binary exponent of a positive number, \<open>2^e \<le> q < 2^(e+1)\<close>, found
  by halving a number from 2 on and doubling a number below 1.
\<close>

function binexp_up :: "real \<Rightarrow> int" where
  "binexp_up q = (if 2 \<le> q then 1 + binexp_up (q / 2) else 0)"
  by pat_completeness auto
termination
proof (relation "measure (\<lambda>q. nat \<lfloor>q\<rfloor>)")
  fix q :: real
  assume q: "2 \<le> q"
  have "\<lfloor>q / 2\<rfloor> \<le> \<lfloor>q - 1\<rfloor>"
    by (rule floor_mono) (use q in simp)
  also have "\<dots> < \<lfloor>q\<rfloor>" by simp
  finally have "\<lfloor>q / 2\<rfloor> < \<lfloor>q\<rfloor>" .
  moreover have "0 < \<lfloor>q\<rfloor>" using q by simp
  ultimately show "(q / 2, q) \<in> measure (\<lambda>q. nat \<lfloor>q\<rfloor>)" by simp
qed simp

function binexp_down :: "real \<Rightarrow> int" where
  "binexp_down q = (if 0 < q \<and> q < 1 then binexp_down (2 * q) - 1 else 0)"
  by pat_completeness auto
termination
proof (relation "measure (\<lambda>q. nat \<lceil>1 / q\<rceil>)")
  fix q :: real
  assume "0 < q \<and> q < 1"
  then have q: "0 < q" "q < 1" by simp_all
  then have "1 < 1 / q" by simp
  then have two: "2 \<le> \<lceil>1 / q\<rceil>" by linarith
  have "1 / (2 * q) = (1 / q) / 2" by simp
  also have "\<dots> \<le> of_int \<lceil>1 / q\<rceil> / 2"
    by (simp add: divide_right_mono)
  also have "\<dots> \<le> of_int (\<lceil>1 / q\<rceil> - 1)"
    using two by simp
  finally have "\<lceil>1 / (2 * q)\<rceil> \<le> \<lceil>1 / q\<rceil> - 1"
    by (rule ceiling_le)
  with two show "(2 * q, q) \<in> measure (\<lambda>q. nat \<lceil>1 / q\<rceil>)"
    using q by simp
qed simp

declare binexp_up.simps [simp del] binexp_down.simps [simp del]

definition binexp :: "real \<Rightarrow> int" where
  "binexp q = (if 1 \<le> q then binexp_up q else binexp_down q)"

text \<open>
  Rounding of an exact result to binary64, to nearest, ties to even: 53 significant bits,
  least exponent \<open>-1074\<close> (subnormals), overflow to an infinity from \<open>2^1024\<close> on.
  \<open>round_at p a\<close> rounds \<open>a\<close> to a multiple of \<open>2^p\<close>.
\<close>

definition round_at :: "int \<Rightarrow> real \<Rightarrow> real" where
  "round_at p a = of_int (round_half_even (a / pow2 p)) * pow2 p"

definition to_double :: "real \<Rightarrow> pyfloat" where
  "to_double q =
     (if q = 0 then Fin 0
      else if pow2 1024 \<le> round_at (max (binexp \<bar>q\<bar> - 52) (- 1074)) \<bar>q\<bar>
      then (if q < 0 then NInf else PInf)
      else Fin (sgn q * round_at (max (binexp \<bar>q\<bar> - 52) (- 1074)) \<bar>q\<bar>))"

text \<open>
  The values the program handles are those of decoded JSON: \<^verbatim>\<open>None\<close>, booleans, integers
  (unbounded), floats, strings, lists and dicts with string keys. A dict keeps its
  insertion order, so it is an association list; \<open>dict_set\<close> is \<^verbatim>\<open>d[k] = v\<close>: an
  existing key keeps its place, a new key goes last. A decoded JSON document is a tree
  (no object is shared between two places), which is what lets in-place mutation be
  modelled by returning the updated value.
\<close>

datatype json =
    JNull
  | JBool bool
  | JInt int
  | JFloat pyfloat
  | JStr ustr
  | JList "json list"
  | JDict "(ustr \<times> json) list"

fun dict_set :: "'k \<Rightarrow> 'v \<Rightarrow> ('k \<times> 'v) list \<Rightarrow> ('k \<times> 'v) list" where
  "dict_set k v [] = [(k, v)]"
| "dict_set k v ((k', v') # kvs) =
     (if k' = k then (k, v) # kvs else (k', v') # dict_set k v kvs)"

text \<open>\<^verbatim>\<open>d.get(k, default)\<close> and \<^verbatim>\<open>d.get(k)\<close>, whose default is \<^verbatim>\<open>None\<close>.\<close>

definition dict_get_default :: "(ustr \<times> json) list \<Rightarrow> ustr \<Rightarrow> json \<Rightarrow> json" where
  "dict_get_default kvs k d = (case map_of kvs k of None \<Rightarrow> d | Some v \<Rightarrow> v)"

definition dict_get :: "(ustr \<times> json) list \<Rightarrow> ustr \<Rightarrow> json" where
  "dict_get kvs k = dict_get_default kvs k JNull"

text \<open>Python's truth value of an object.\<close>

fun truthy :: "json \<Rightarrow> bool" where
  "truthy JNull = False"
| "truthy (JBool b) = b"
| "truthy (JInt i) = (i \<noteq> 0)"
| "truthy (JFloat f) = (f \<noteq> Fin 0)"
| "truthy (JStr s) = (s \<noteq> [])"
| "truthy (JList xs) = (xs \<noteq> [])"
| "truthy (JDict kvs) = (kvs \<noteq> [])"

text \<open>\<^verbatim>\<open>a or b\<close>\<close>

definition py_or :: "json \<Rightarrow> json \<Rightarrow> json" where
  "py_or a b = (if truthy a then a else b)"

fun type_name :: "json \<Rightarrow> ustr" where
  "type_name JNull = ascii ''NoneType''"
| "type_name (JBool _) = ascii ''bool''"
| "type_name (JInt _) = ascii ''int''"
| "type_name (JFloat _) = ascii ''float''"
| "type_name (JStr _) = ascii ''str''"
| "type_name (JList _) = ascii ''list''"
| "type_name (JDict _) = ascii ''dict''"

section \<open>Exceptions\<close>

text \<open>
  Each exception carries the text that \<^verbatim>\<open>str(e)\<close> gives. The first three are raised by
  the HTTP library (the request itself, \<^verbatim>\<open>raise_for_status\<close>, \<^verbatim>\<open>r.json()\<close>), the others by
  the interpreter.
\<close>

datatype exn =
    RequestException ustr
  | HTTPError ustr
  | JSONDecodeError ustr
  | AttributeError ustr
  | TypeError ustr
  | ValueError ustr
  | OverflowError ustr
  | ZeroDivisionError ustr
  | KeyError ustr

fun exn_str :: "exn \<Rightarrow> ustr" where
  "exn_str (RequestException m) = m"
| "exn_str (HTTPError m) = m"
| "exn_str (JSONDecodeError m) = m"
| "exn_str (AttributeError m) = m"
| "exn_str (TypeError m) = m"
| "exn_str (ValueError m) = m"
| "exn_str (OverflowError m) = m"
| "exn_str (ZeroDivisionError m) = m"
| "exn_str (KeyError m) = m"

definition quoted :: "ustr \<Rightarrow> ustr" where
  "quoted s = 39 # s @ [39]"

definition no_attribute :: "json \<Rightarrow> string \<Rightarrow> exn" where
  "no_attribute v a =
     AttributeError (quoted (type_name v) @ ascii '' object has no attribute ''
                     @ quoted (ascii a))"

definition not_iterable :: "json \<Rightarrow> exn" where
  "not_iterable v = TypeError (quoted (type_name v) @ ascii '' object is not iterable'')"

definition unhashable :: "json \<Rightarrow> exn" where
  "unhashable v = TypeError (ascii ''unhashable type: '' @ quoted (type_name v))"

section \<open>Float arithmetic of the interpreter\<close>

text \<open>\<^verbatim>\<open>float(i)\<close> for an integer: correctly rounded, \<^verbatim>\<open>OverflowError\<close> beyond the range.\<close>

definition float_of_int :: "int \<Rightarrow> exn + pyfloat" where
  "float_of_int i =
     (case to_double (of_int i) of
        Fin r \<Rightarrow> Inr (Fin r)
      | _ \<Rightarrow> Inl (OverflowError (ascii ''int too large to convert to float'')))"

text \<open>\<^verbatim>\<open>x / y\<close> on floats: a zero divisor raises, the rest is IEEE division.\<close>

fun float_div :: "pyfloat \<Rightarrow> pyfloat \<Rightarrow> exn + pyfloat" where
  "float_div x (Fin b) =
     (if b = 0 then Inl (ZeroDivisionError (ascii ''float division by zero''))
      else case x of
             Fin a \<Rightarrow> Inr (to_double (a / b))
           | PInf \<Rightarrow> Inr (if 0 < b then PInf else NInf)
           | NInf \<Rightarrow> Inr (if 0 < b then NInf else PInf)
           | NaN \<Rightarrow> Inr NaN)"
| "float_div (Fin a) PInf = Inr (Fin 0)"
| "float_div (Fin a) NInf = Inr (Fin 0)"
| "float_div x y = Inr NaN"

text \<open>\<^verbatim>\<open>i / x\<close> with an integer on the left: the integer is converted first.\<close>

definition int_div_float :: "int \<Rightarrow> pyfloat \<Rightarrow> exn + pyfloat" where
  "int_div_float i x =
     (case float_of_int i of Inl e \<Rightarrow> Inl e | Inr a \<Rightarrow> float_div a x)"

text \<open>\<^verbatim>\<open>a / b\<close> on two integers: the exact quotient, correctly rounded.\<close>

definition int_truediv :: "int \<Rightarrow> int \<Rightarrow> exn + pyfloat" where
  "int_truediv a b =
     (if b = 0 then Inl (ZeroDivisionError (ascii ''division by zero''))
      else case to_double (of_int a / of_int b) of
             Fin r \<Rightarrow> Inr (Fin r)
           | _ \<Rightarrow> Inl (OverflowError (ascii ''integer division result too large for a float'')))"

text \<open>
  \<^verbatim>\<open>round(x, n)\<close> on a float, for the small non-negative \<open>n\<close> the program uses: the exact
  binary value is rounded to \<open>n\<close> decimals, ties to even, and the decimal is converted
  back to the nearest float. Infinities and NaN are returned as they are.
\<close>

definition decimal_round :: "nat \<Rightarrow> real \<Rightarrow> real" where
  "decimal_round n q = of_int (round_half_even (q * 10 ^ n)) / 10 ^ n"

definition py_round :: "pyfloat \<Rightarrow> nat \<Rightarrow> exn + pyfloat" where
  "py_round x n =
     (case x of
        Fin r \<Rightarrow>
          (case to_double (decimal_round n r) of
             Fin v \<Rightarrow> Inr (Fin v)
           | _ \<Rightarrow> Inl (OverflowError (ascii ''rounded value too large to represent'')))
      | _ \<Rightarrow> Inr x)"

section \<open>The metadata table and the Enricher\<close>

record region_meta =
  population :: int
  surface_km2 :: int

definition mapping :: "(ustr \<times> region_meta) list" where
  "mapping =
   [ (206 # ascii ''le-de-France'', \<lparr>population = 12271794, surface_km2 = 12012\<rparr>),
     (ascii ''Auvergne-Rh'' @ 244 # ascii ''ne-Alpes'',
        \<lparr>population = 8078271, surface_km2 = 69711\<rparr>),
     (ascii ''Nouvelle-Aquitaine'', \<lparr>population = 6073000, surface_km2 = 84036\<rparr>),
     (ascii ''Occitanie'', \<lparr>population = 5999000, surface_km2 = 72724\<rparr>),
     (ascii ''Grand Est'', \<lparr>population = 5549000, surface_km2 = 57441\<rparr>),
     (ascii ''Hauts-de-France'', \<lparr>population = 6006000, surface_km2 = 31813\<rparr>),
     (ascii ''Provence-Alpes-C'' @ 244 # ascii ''te d'' @ 39 # ascii ''Azur'',
        \<lparr>population = 5098000, surface_km2 = 31400\<rparr>),
     (ascii ''Pays de la Loire'', \<lparr>population = 3883000, surface_km2 = 32082\<rparr>),
     (ascii ''Bretagne'', \<lparr>population = 3420000, surface_km2 = 27208\<rparr>),
     (ascii ''Centre-Val de Loire'', \<lparr>population = 2573000, surface_km2 = 39151\<rparr>),
     (ascii ''Bourgogne-Franche-Comt'' @ [233],
        \<lparr>population = 2807000, surface_km2 = 47784\<rparr>),
     (ascii ''Normandie'', \<lparr>population = 3330000, surface_km2 = 29906\<rparr>),
     (ascii ''Corse'', \<lparr>population = 351000, surface_km2 = 8680\<rparr>),
     (ascii ''Guadeloupe'', \<lparr>population = 376000, surface_km2 = 1628\<rparr>),
     (ascii ''Martinique'', \<lparr>population = 353000, surface_km2 = 1128\<rparr>),
     (ascii ''Guyane'', \<lparr>population = 294000, surface_km2 = 83846\<rparr>),
     (ascii ''La R'' @ 233 # ascii ''union'', \<lparr>population = 859000, surface_km2 = 2512\<rparr>),
     (ascii ''Mayotte'', \<lparr>population = 310000, surface_km2 = 376\<rparr>) ]"

text \<open>\<^verbatim>\<open>total_pop = sum(v["population"] for v in mapping.values())\<close>\<close>

definition total_pop :: "(ustr \<times> region_meta) list \<Rightarrow> int" where
  "total_pop tbl = sum_list (map (\<lambda>(k, v). population v) tbl)"

text \<open>
  \<^verbatim>\<open>mapping.get(name)\<close>: the keys of the table are strings, so only a string can be
  found; a list or a dict is unhashable and raises; any other value is simply absent.
\<close>

definition table_get :: "(ustr \<times> 'a) list \<Rightarrow> json \<Rightarrow> exn + 'a option" where
  "table_get tbl name =
     (case name of
        JStr s \<Rightarrow> Inr (map_of tbl s)
      | JList xs \<Rightarrow> Inl (unhashable name)
      | JDict kvs \<Rightarrow> Inl (unhashable name)
      | _ \<Rightarrow> Inr None)"

text \<open>\<^verbatim>\<open>name = props.get("nom") or props.get("name")\<close>\<close>

definition join_name :: "(ustr \<times> json) list \<Rightarrow> json" where
  "join_name props = py_or (dict_get props (ascii ''nom'')) (dict_get props (ascii ''name''))"

text \<open>\<^verbatim>\<open>dens = round(pop / surf, 1) if surf else None\<close>\<close>

definition compute_dens :: "int \<Rightarrow> pyfloat \<Rightarrow> exn + json" where
  "compute_dens pop surf =
     (if truthy (JFloat surf) then
        (case int_div_float pop surf of
           Inl e \<Rightarrow> Inl e
         | Inr q \<Rightarrow> (case py_round q 1 of Inl e \<Rightarrow> Inl e | Inr d \<Rightarrow> Inr (JFloat d)))
      else Inr JNull)"

text \<open>\<^verbatim>\<open>round(100 * pop / total_pop, 2)\<close>\<close>

definition compute_share :: "int \<Rightarrow> int \<Rightarrow> exn + json" where
  "compute_share pop tot =
     (case int_truediv (100 * pop) tot of
        Inl e \<Rightarrow> Inl e
      | Inr q \<Rightarrow> (case py_round q 2 of Inl e \<Rightarrow> Inl e | Inr s \<Rightarrow> Inr (JFloat s)))"

text \<open>
  The body of \<^verbatim>\<open>if meta:\<close> (an entry of the table is a non-empty dict, hence true). It
  returns the exception raised, if any, and the property dict as it is at that moment:
  the three assignments that precede the computation of the share stay done when that
  computation raises.
\<close>

definition enrich_props ::
  "int \<Rightarrow> region_meta \<Rightarrow> (ustr \<times> json) list \<Rightarrow> exn option \<times> (ustr \<times> json) list" where
  "enrich_props tot meta props =
     (let pop = population meta in
      case float_of_int (surface_km2 meta) of
        Inl e \<Rightarrow> (Some e, props)
      | Inr surf \<Rightarrow>
          (case compute_dens pop surf of
             Inl e \<Rightarrow> (Some e, props)
           | Inr dens \<Rightarrow>
               (let props1 = dict_set (ascii ''population'') (JInt pop) props;
                    props2 = dict_set (ascii ''surface_km2'') (JFloat surf) props1;
                    props3 = dict_set (ascii ''densite_km2'') dens props2
                in if tot \<noteq> 0 then
                     (case compute_share pop tot of
                        Inl e \<Rightarrow> (Some e, props3)
                      | Inr share \<Rightarrow>
                          (None, dict_set (ascii ''part_population_pct'') share props3))
                   else (None, props3))))"

text \<open>
  One turn of the loop over the features. The result is the exception raised, if any,
  and the feature as the turn leaves it. When \<^verbatim>\<open>feat.get("properties", {})\<close> is true,
  \<^verbatim>\<open>props\<close> is the very dict held by the feature, and a mutation of it shows in the
  feature at once; otherwise \<^verbatim>\<open>props\<close> is a fresh dict, which reaches the feature only
  through the final \<^verbatim>\<open>feat["properties"] = props\<close>.
\<close>

definition enrich_feature ::
  "(ustr \<times> region_meta) list \<Rightarrow> int \<Rightarrow> json \<Rightarrow> exn option \<times> json" where
  "enrich_feature tbl tot feat =
     (case feat of
        JDict fkv \<Rightarrow>
          (let p = dict_get_default fkv (ascii ''properties'') (JDict []);
               props = py_or p (JDict [])
           in case props of
                JDict pkv \<Rightarrow>
                  (case table_get tbl (join_name pkv) of
                     Inl e \<Rightarrow> (Some e, feat)
                   | Inr None \<Rightarrow>
                       (None, JDict (dict_set (ascii ''properties'') (JDict pkv) fkv))
                   | Inr (Some meta) \<Rightarrow>
                       (case enrich_props tot meta pkv of
                          (None, pkv') \<Rightarrow>
                            (None, JDict (dict_set (ascii ''properties'') (JDict pkv') fkv))
                        | (Some e, pkv') \<Rightarrow>
                            (Some e,
                             if truthy p
                             then JDict (dict_set (ascii ''properties'') (JDict pkv') fkv)
                             else feat)))
              | _ \<Rightarrow> (Some (no_attribute props ''get''), feat))
      | _ \<Rightarrow> (Some (no_attribute feat ''get''), feat))"

fun enrich_features ::
  "(ustr \<times> region_meta) list \<Rightarrow> int \<Rightarrow> json list \<Rightarrow> exn option \<times> json list" where
  "enrich_features tbl tot [] = (None, [])"
| "enrich_features tbl tot (feat # feats) =
     (case enrich_feature tbl tot feat of
        (Some e, feat') \<Rightarrow> (Some e, feat' # feats)
      | (None, feat') \<Rightarrow>
          (case enrich_features tbl tot feats of (r, feats') \<Rightarrow> (r, feat' # feats')))"

text \<open>
  The function returns nothing and mutates the collection in place: the model returns
  the exception that ended the run, if any, and the collection as the run leaves it.
  \<^verbatim>\<open>for feat in geojson.get("features", [])\<close>: a list gives its elements; a dict gives
  its keys and a string its characters, all strings, on which \<^verbatim>\<open>feat.get\<close> raises at the
  first turn; any other value is not iterable.
\<close>

definition enrich_with :: "(ustr \<times> region_meta) list \<Rightarrow> json \<Rightarrow> exn option \<times> json" where
  "enrich_with tbl geojson =
     (case geojson of
        JDict gkv \<Rightarrow>
          (case dict_get_default gkv (ascii ''features'') (JList []) of
             JList feats \<Rightarrow>
               (case enrich_features tbl (total_pop tbl) feats of
                  (r, feats') \<Rightarrow>
                    (r, if feats = [] then geojson
                        else JDict (dict_set (ascii ''features'') (JList feats') gkv)))
           | JDict kvs \<Rightarrow>
               (case kvs of
                  [] \<Rightarrow> (None, geojson)
                | (k, v) # _ \<Rightarrow> (Some (no_attribute (JStr k) ''get''), geojson))
           | JStr s \<Rightarrow>
               (case s of
                  [] \<Rightarrow> (None, geojson)
                | c # _ \<Rightarrow> (Some (no_attribute (JStr [c]) ''get''), geojson))
           | v \<Rightarrow> (Some (not_iterable v), geojson))
      | _ \<Rightarrow> (Some (no_attribute geojson ''get''), geojson))"

definition enrich_regions_metadata :: "json \<Rightarrow> exn option \<times> json" where
  "enrich_regions_metadata geojson = enrich_with mapping geojson"

section \<open>Vocabulary of the properties of the Enricher\<close>

text \<open>
  The property bag of a feature, read the way the program reads it,
  \<^verbatim>\<open>feat.get("properties", {}) or {}\<close>; the name the join uses; the features of a
  collection; one property of a feature.
\<close>

definition feature_bag :: "json \<Rightarrow> json" where
  "feature_bag feat =
     (case feat of
        JDict fkv \<Rightarrow> py_or (dict_get_default fkv (ascii ''properties'') (JDict [])) (JDict [])
      | _ \<Rightarrow> JNull)"

definition feature_name :: "json \<Rightarrow> json" where
  "feature_name feat = (case feature_bag feat of JDict pkv \<Rightarrow> join_name pkv | _ \<Rightarrow> JNull)"

definition feature_prop :: "json \<Rightarrow> ustr \<Rightarrow> json" where
  "feature_prop feat k = (case feature_bag feat of JDict pkv \<Rightarrow> dict_get pkv k | _ \<Rightarrow> JNull)"

definition in_table :: "(ustr \<times> 'a) list \<Rightarrow> json \<Rightarrow> bool" where
  "in_table tbl name = (case name of JStr s \<Rightarrow> map_of tbl s \<noteq> None | _ \<Rightarrow> False)"

definition features_of :: "json \<Rightarrow> json list" where
  "features_of geojson =
     (case geojson of
        JDict gkv \<Rightarrow>
          (case dict_get_default gkv (ascii ''features'') (JList []) of
             JList feats \<Rightarrow> feats
           | _ \<Rightarrow> [])
      | _ \<Rightarrow> [])"

text \<open>The collection of the end-to-end scenario: one region of the table, one unknown.\<close>

definition named_feature :: "ustr \<Rightarrow> json" where
  "named_feature nm = JDict [(ascii ''properties'', JDict [(ascii ''nom'', JStr nm)])]"

definition two_features :: json where
  "two_features =
     JDict [(ascii ''features'',
             JList [named_feature (ascii ''Bretagne''), named_feature (ascii ''Unknown Land'')])]"

text \<open>
  The density as the specification words it, population divided by area, null when the
  area is zero; and the density and the share as exact quotients rounded to one and to
  two decimals, each taken to the nearest float.
\<close>

definition quotient_density :: "region_meta \<Rightarrow> json" where
  "quotient_density meta =
     (if surface_km2 meta = 0 then JNull
      else JFloat (to_double (of_int (population meta) / of_int (surface_km2 meta))))"

definition rounded_density :: "region_meta \<Rightarrow> json" where
  "rounded_density meta =
     (if surface_km2 meta = 0 then JNull
      else JFloat (to_double
             (decimal_round 1 (of_int (population meta) / of_int (surface_km2 meta)))))"

definition rounded_share :: "int \<Rightarrow> region_meta \<Rightarrow> json" where
  "rounded_share tot meta =
     JFloat (to_double (decimal_round 2 (100 * of_int (population meta) / of_int tot)))"

text \<open>The property dict of a feature of the table after enrichment.\<close>

definition enriched_props :: "region_meta \<Rightarrow> (ustr \<times> json) list \<Rightarrow> (ustr \<times> json) list" where
  "enriched_props meta props =
     dict_set (ascii ''part_population_pct'') (rounded_share (total_pop mapping) meta)
       (dict_set (ascii ''densite_km2'') (rounded_density meta)
          (dict_set (ascii ''surface_km2'') (JFloat (Fin (of_int (surface_km2 meta))))
             (dict_set (ascii ''population'') (JInt (population meta)) props)))"

section \<open>The Renderer: colour of a density\<close>

text \<open>
  \<^verbatim>\<open>float(d)\<close>. The conversion of a string is the interpreter's own parser of float
  literals, which is not part of the program: it is the parameter \<open>parse\<close>, \<open>None\<close>
  standing for \<^verbatim>\<open>ValueError\<close>.
\<close>

definition py_float :: "(ustr \<Rightarrow> pyfloat option) \<Rightarrow> json \<Rightarrow> exn + pyfloat" where
  "py_float parse d =
     (case d of
        JBool b \<Rightarrow> Inr (Fin (if b then 1 else 0))
      | JInt i \<Rightarrow> float_of_int i
      | JFloat f \<Rightarrow> Inr f
      | JStr s \<Rightarrow>
          (case parse s of
             None \<Rightarrow> Inl (ValueError (ascii ''could not convert string to float: '' @ quoted s))
           | Some f \<Rightarrow> Inr f)
      | _ \<Rightarrow> Inl (TypeError (ascii ''float() argument must be a string or a real number, not ''
                             @ quoted (type_name d))))"

text \<open>\<^verbatim>\<open>x < c\<close> for a float and a finite bound: false for NaN.\<close>

fun float_less :: "pyfloat \<Rightarrow> real \<Rightarrow> bool" where
  "float_less (Fin r) c = (r < c)"
| "float_less NInf c = True"
| "float_less PInf c = False"
| "float_less NaN c = False"

text \<open>
  \<^verbatim>\<open>density_color\<close> catches \<^verbatim>\<open>TypeError\<close> and \<^verbatim>\<open>ValueError\<close> only: the
  \<^verbatim>\<open>OverflowError\<close> of an integer beyond the floats leaves the function.
\<close>

definition density_color :: "(ustr \<Rightarrow> pyfloat option) \<Rightarrow> json \<Rightarrow> exn + string" where
  "density_color parse d =
     (case py_float parse d of
        Inl (TypeError m) \<Rightarrow> Inr ''#2E6EEA''
      | Inl (ValueError m) \<Rightarrow> Inr ''#2E6EEA''
      | Inl e \<Rightarrow> Inl e
      | Inr x \<Rightarrow>
          Inr (if float_less x 50 then ''#D4EEFF''
               else if float_less x 100 then ''#9BD1FF''
               else if float_less x 150 then ''#6FB2FF''
               else if float_less x 250 then ''#3D7CFF''
               else if float_less x 500 then ''#2E6EEA''
               else ''#1F4DBF''))"

text \<open>
  The fill colour of \<^verbatim>\<open>style_function\<close>:
  \<^verbatim>\<open>density_color((feature.get("properties") or {}).get("densite_km2"))\<close>.
\<close>

definition fill_color :: "(ustr \<Rightarrow> pyfloat option) \<Rightarrow> json \<Rightarrow> exn + string" where
  "fill_color parse feature =
     (case feature of
        JDict fkv \<Rightarrow>
          (case py_or (dict_get fkv (ascii ''properties'')) (JDict []) of
             JDict pkv \<Rightarrow> density_color parse (dict_get pkv (ascii ''densite_km2''))
           | props \<Rightarrow> Inl (no_attribute props ''get''))
      | _ \<Rightarrow> Inl (no_attribute feature ''get''))"

text \<open>The five thresholds and the six colours of the buckets, in order.\<close>

definition thresholds :: "real list" where
  "thresholds = [50, 100, 150, 250, 500]"

definition bucket_colors :: "string list" where
  "bucket_colors = [''#D4EEFF'', ''#9BD1FF'', ''#6FB2FF'', ''#3D7CFF'', ''#2E6EEA'', ''#1F4DBF'']"

text \<open>
  The colour of a finite density given as a float (no string is involved, so the parser
  is one that accepts nothing).
\<close>

definition never_parses :: "ustr \<Rightarrow> pyfloat option" where
  "never_parses s = None"

definition bucket :: "real \<Rightarrow> exn + string" where
  "bucket d = density_color never_parses (JFloat (Fin d))"

section \<open>The Renderer: the click handler of the emitted script\<close>

text \<open>
  The script is JavaScript. Its values are those of the embedded collection, so the
  same type is used; a property that is absent is \<open>None\<close> (\<^verbatim>\<open>undefined\<close>), and a list
  or an object is true even when empty.
\<close>

fun js_truthy :: "json \<Rightarrow> bool" where
  "js_truthy JNull = False"
| "js_truthy (JBool b) = b"
| "js_truthy (JInt i) = (i \<noteq> 0)"
| "js_truthy (JFloat f) = (f \<noteq> Fin 0 \<and> f \<noteq> NaN)"
| "js_truthy (JStr s) = (s \<noteq> [])"
| "js_truthy (JList xs) = True"
| "js_truthy (JDict kvs) = True"

definition js_prop :: "json \<Rightarrow> ustr \<Rightarrow> json option" where
  "js_prop v k = (case v of JDict kvs \<Rightarrow> map_of kvs k | _ \<Rightarrow> None)"

text \<open>
  \<^verbatim>\<open>encodeURIComponent\<close>: the characters \<^verbatim>\<open>A-Z a-z 0-9 - _ . ! ~ * ' ( )\<close> stay, every
  other code point is replaced by the bytes of its UTF-8 encoding, each written
  \<^verbatim>\<open>%XX\<close> in upper-case hexadecimal; a lone surrogate makes it throw (\<open>None\<close>).
\<close>

definition unreserved :: "nat \<Rightarrow> bool" where
  "unreserved c =
     ((65 \<le> c \<and> c \<le> 90) \<or> (97 \<le> c \<and> c \<le> 122) \<or> (48 \<le> c \<and> c \<le> 57)
      \<or> c \<in> set (ascii ''-_.!~*()'') \<or> c = 39)"

definition utf8 :: "nat \<Rightarrow> nat list" where
  "utf8 c =
     (if c < 128 then [c]
      else if c < 2048 then [192 + c div 64, 128 + c mod 64]
      else if c < 65536 then [224 + c div 4096, 128 + c div 64 mod 64, 128 + c mod 64]
      else [240 + c div 262144, 128 + c div 4096 mod 64, 128 + c div 64 mod 64,
            128 + c mod 64])"

definition hex_digit :: "nat \<Rightarrow> nat" where
  "hex_digit n = (if n < 10 then 48 + n else 55 + n)"

definition percent :: "nat \<Rightarrow> ustr" where
  "percent b = [37, hex_digit (b div 16), hex_digit (b mod 16)]"

definition is_surrogate :: "nat \<Rightarrow> bool" where
  "is_surrogate c = (55296 \<le> c \<and> c \<le> 57343)"

fun encodeURIComponent :: "ustr \<Rightarrow> ustr option" where
  "encodeURIComponent [] = Some []"
| "encodeURIComponent (c # cs) =
     (if unreserved c then map_option ((#) c) (encodeURIComponent cs)
      else if is_surrogate c then None
      else map_option ((@) (concat (map percent (utf8 c)))) (encodeURIComponent cs))"

text \<open>
  \<^verbatim>\<open>attach(layer)\<close>, for the feature \<open>f\<close> of the layer. A click handler is installed
  only under the guard \<^verbatim>\<open>f && f.properties && f.properties.nom\<close>. The conversion of a
  name that is not a string to a string is the parameter \<open>tostr\<close>.
\<close>

datatype click = NoHandler | Navigate ustr | Throws

definition attach :: "(json \<Rightarrow> ustr) \<Rightarrow> json \<Rightarrow> click" where
  "attach tostr f =
     (if js_truthy f then
        (case js_prop f (ascii ''properties'') of
           None \<Rightarrow> NoHandler
         | Some props \<Rightarrow>
             (if js_truthy props then
                (case js_prop props (ascii ''nom'') of
                   None \<Rightarrow> NoHandler
                 | Some nom \<Rightarrow>
                     (if js_truthy nom then
                        (case encodeURIComponent (case nom of JStr s \<Rightarrow> s | _ \<Rightarrow> tostr nom) of
                           None \<Rightarrow> Throws
                         | Some enc \<Rightarrow>
                             Navigate (ascii ''R'' @ 233 # ascii ''gions/'' @ enc @ ascii ''.HTML''))
                      else NoHandler))
              else NoHandler))
      else NoHandler)"

text \<open>
  The path as the specification words it: prefix, percent-encoded name, suffix. And a
  conversion to a string for the features whose name is a string already.
\<close>

definition no_conversion :: "json \<Rightarrow> ustr" where
  "no_conversion v = []"

definition percent_encoded :: "ustr \<Rightarrow> ustr" where
  "percent_encoded s =
     concat (map (\<lambda>c. if unreserved c then [c] else concat (map percent (utf8 c))) s)"

definition click_path :: "ustr \<Rightarrow> ustr" where
  "click_path name = ascii ''R'' @ 233 # ascii ''gions/'' @ percent_encoded name @ ascii ''.HTML''"

section \<open>The Source Resolver\<close>

text \<open>
  What the network answers to a request of one URL, as far as the program looks at it:
  \<^verbatim>\<open>requests.get\<close> raises (transport error, timeout); \<^verbatim>\<open>raise_for_status\<close> raises
  (non-success status); \<^verbatim>\<open>r.json()\<close> raises (the body is not JSON); or the body decodes
  to a value. Each failure carries the text of its exception. No URL is requested twice
  in one run, so a function from URLs describes any behaviour of the network over a run.
\<close>

datatype attempt = TransportError ustr | BadStatus ustr | NotJSON ustr | Body json

type_synonym url = string

definition candidate_urls :: "url list" where
  "candidate_urls =
   [ ''https://geo.api.gouv.fr/regions?format=geojson&geometry=contour&projection=WGS84'',
     ''https://geo.api.gouv.fr/regions?format=geojson&geometry=contours&projection=WGS84'',
     ''https://geo.api.gouv.fr/regions?format=geojson&geometry=contour'',
     ''https://geo.api.gouv.fr/regions?format=geojson&geometry=contours'',
     ''https://geo.api.gouv.fr/regions?format=geojson'',
     ''https://geo.api.gouv.fr/regions?projection=WGS84&format=geojson'' ]"

definition fallbacks :: "url list" where
  "fallbacks =
   [ ''https://france-geojson.gregoiredavid.fr/repo/regions.geojson'',
     ''https://raw.githubusercontent.com/gregoiredavid/france-geojson/master/regions.geojson'' ]"

text \<open>
  \<^verbatim>\<open>r = requests.get(url, timeout=30); r.raise_for_status(); data = r.json()\<close>
\<close>

definition get_json :: "(url \<Rightarrow> attempt) \<Rightarrow> url \<Rightarrow> exn + json" where
  "get_json net u =
     (case net u of
        TransportError m \<Rightarrow> Inl (RequestException m)
      | BadStatus m \<Rightarrow> Inl (HTTPError m)
      | NotJSON m \<Rightarrow> Inl (JSONDecodeError m)
      | Body data \<Rightarrow> Inr data)"

text \<open>\<^verbatim>\<open>isinstance(data, dict) and data.get("features")\<close>\<close>

definition has_features :: "json \<Rightarrow> bool" where
  "has_features data =
     (case data of JDict kvs \<Rightarrow> truthy (dict_get kvs (ascii ''features'')) | _ \<Rightarrow> False)"

text \<open>
  The operators the normalisation applies to \<^verbatim>\<open>props\<close>, which is whatever true value
  the feature holds under \<^verbatim>\<open>"properties"\<close>: \<^verbatim>\<open>key in props\<close> (key of a dict, element of
  a list, substring of a string), \<^verbatim>\<open>props[key]\<close> and \<^verbatim>\<open>props[key] = v\<close>.
\<close>

fun starts_with :: "'a list \<Rightarrow> 'a list \<Rightarrow> bool" where
  "starts_with s [] = True"
| "starts_with [] (c # cs) = False"
| "starts_with (d # ds) (c # cs) = (d = c \<and> starts_with ds cs)"

fun substring :: "'a list \<Rightarrow> 'a list \<Rightarrow> bool" where
  "substring k [] = (k = [])"
| "substring k (c # cs) = (starts_with (c # cs) k \<or> substring k cs)"

definition py_in :: "ustr \<Rightarrow> json \<Rightarrow> exn + bool" where
  "py_in k v =
     (case v of
        JDict kvs \<Rightarrow> Inr (map_of kvs k \<noteq> None)
      | JList xs \<Rightarrow> Inr (JStr k \<in> set xs)
      | JStr s \<Rightarrow> Inr (substring k s)
      | _ \<Rightarrow> Inl (TypeError (ascii ''argument of type '' @ quoted (type_name v)
                             @ ascii '' is not iterable'')))"

definition py_getitem :: "json \<Rightarrow> ustr \<Rightarrow> exn + json" where
  "py_getitem v k =
     (case v of
        JDict kvs \<Rightarrow> (case map_of kvs k of None \<Rightarrow> Inl (KeyError (quoted k)) | Some x \<Rightarrow> Inr x)
      | JList xs \<Rightarrow> Inl (TypeError (ascii ''list indices must be integers or slices, not str''))
      | JStr s \<Rightarrow> Inl (TypeError (ascii ''string indices must be integers, not '' @ quoted (ascii ''str'')))
      | _ \<Rightarrow> Inl (TypeError (quoted (type_name v) @ ascii '' object is not subscriptable'')))"

definition py_setitem :: "json \<Rightarrow> ustr \<Rightarrow> json \<Rightarrow> exn + json" where
  "py_setitem v k x =
     (case v of
        JDict kvs \<Rightarrow> Inr (JDict (dict_set k x kvs))
      | JList xs \<Rightarrow> Inl (TypeError (ascii ''list indices must be integers or slices, not str''))
      | _ \<Rightarrow> Inl (TypeError (quoted (type_name v)
                             @ ascii '' object does not support item assignment'')))"

text \<open>
  \<^verbatim>\<open>for key in ("code_insee", "code_region", "id"): if key in props: props["code"] = props[key]; break\<close>
\<close>

fun copy_code :: "ustr list \<Rightarrow> json \<Rightarrow> exn + json" where
  "copy_code [] props = Inr props"
| "copy_code (key # keys) props =
     (case py_in key props of
        Inl e \<Rightarrow> Inl e
      | Inr True \<Rightarrow>
          (case py_getitem props key of
             Inl e \<Rightarrow> Inl e
           | Inr x \<Rightarrow> py_setitem props (ascii ''code'') x)
      | Inr False \<Rightarrow> copy_code keys props)"

text \<open>The two \<^verbatim>\<open>if\<close> statements of the normalisation, on \<^verbatim>\<open>props\<close>.\<close>

definition copy_nom :: "json \<Rightarrow> exn + json" where
  "copy_nom props =
     (case py_in (ascii ''nom'') props of
        Inl e \<Rightarrow> Inl e
      | Inr True \<Rightarrow> Inr props
      | Inr False \<Rightarrow>
          (case py_in (ascii ''name'') props of
             Inl e \<Rightarrow> Inl e
           | Inr False \<Rightarrow> Inr props
           | Inr True \<Rightarrow>
               (case py_getitem props (ascii ''name'') of
                  Inl e \<Rightarrow> Inl e
                | Inr x \<Rightarrow> py_setitem props (ascii ''nom'') x)))"

definition normalize_props :: "json \<Rightarrow> exn + json" where
  "normalize_props props =
     (case copy_nom props of
        Inl e \<Rightarrow> Inl e
      | Inr props1 \<Rightarrow>
          (case py_in (ascii ''code'') props1 of
             Inl e \<Rightarrow> Inl e
           | Inr True \<Rightarrow> Inr props1
           | Inr False \<Rightarrow>
               copy_code [ascii ''code_insee'', ascii ''code_region'', ascii ''id''] props1))"

definition normalize_feature :: "json \<Rightarrow> exn + json" where
  "normalize_feature feat =
     (case feat of
        JDict fkv \<Rightarrow>
          (case normalize_props
                  (py_or (dict_get_default fkv (ascii ''properties'') (JDict [])) (JDict [])) of
             Inl e \<Rightarrow> Inl e
           | Inr props \<Rightarrow> Inr (JDict (dict_set (ascii ''properties'') props fkv)))
      | _ \<Rightarrow> Inl (no_attribute feat ''get''))"

fun normalize_features :: "json list \<Rightarrow> exn + json list" where
  "normalize_features [] = Inr []"
| "normalize_features (feat # feats) =
     (case normalize_feature feat of
        Inl e \<Rightarrow> Inl e
      | Inr feat' \<Rightarrow>
          (case normalize_features feats of
             Inl e \<Rightarrow> Inl e
           | Inr feats' \<Rightarrow> Inr (feat' # feats')))"

text \<open>
  \<^verbatim>\<open>for feat in data.get("features", []): ...\<close> on the dict \<^verbatim>\<open>data\<close>. An exception
  leaves the loop for the handler of the candidate, and \<^verbatim>\<open>data\<close>, half normalised, is
  dropped: only the exception is kept.
\<close>

definition normalize :: "(ustr \<times> json) list \<Rightarrow> exn + json" where
  "normalize dkv =
     (case dict_get_default dkv (ascii ''features'') (JList []) of
        JList feats \<Rightarrow>
          (case normalize_features feats of
             Inl e \<Rightarrow> Inl e
           | Inr feats' \<Rightarrow>
               Inr (if feats = [] then JDict dkv
                    else JDict (dict_set (ascii ''features'') (JList feats') dkv)))
      | JDict kvs \<Rightarrow>
          (case kvs of
             [] \<Rightarrow> Inr (JDict dkv)
           | (k, v) # _ \<Rightarrow> Inl (no_attribute (JStr k) ''get''))
      | JStr s \<Rightarrow>
          (case s of
             [] \<Rightarrow> Inr (JDict dkv)
           | c # _ \<Rightarrow> Inl (no_attribute (JStr [c]) ''get''))
      | v \<Rightarrow> Inl (not_iterable v))"

text \<open>
  The body of the \<^verbatim>\<open>try\<close> of each loop: it raises, or it returns the data, or it falls
  through to the next candidate (\<open>Inr None\<close>).
\<close>

definition attempt_primary :: "(url \<Rightarrow> attempt) \<Rightarrow> url \<Rightarrow> exn + json option" where
  "attempt_primary net u =
     (case get_json net u of
        Inl e \<Rightarrow> Inl e
      | Inr data \<Rightarrow> Inr (if has_features data then Some data else None))"

definition attempt_fallback :: "(url \<Rightarrow> attempt) \<Rightarrow> url \<Rightarrow> exn + json option" where
  "attempt_fallback net u =
     (case get_json net u of
        Inl e \<Rightarrow> Inl e
      | Inr data \<Rightarrow>
          (if has_features data then
             (case data of
                JDict dkv \<Rightarrow> (case normalize dkv of Inl e \<Rightarrow> Inl e | Inr data' \<Rightarrow> Inr (Some data'))
              | _ \<Rightarrow> Inr None)
           else Inr None))"

text \<open>
  The state of the resolver: \<^verbatim>\<open>last_err\<close>, and the URLs requested so far, which the
  program does not keep but the properties speak of.
\<close>

record fetch_state =
  last_err :: "exn option"
  contacted :: "url list"

text \<open>
  \<^verbatim>\<open>for url in urls: try: ... except Exception as e: last_err = e; continue\<close>, the
  shape of both loops; \<open>body\<close> is the body of the \<^verbatim>\<open>try\<close>.
\<close>

fun try_urls ::
  "(url \<Rightarrow> exn + json option) \<Rightarrow> url list \<Rightarrow> fetch_state \<Rightarrow> json option \<times> fetch_state" where
  "try_urls body [] st = (None, st)"
| "try_urls body (u # us) st =
     (case body u of
        Inl e \<Rightarrow> try_urls body us \<lparr>last_err = Some e, contacted = contacted st @ [u]\<rparr>
      | Inr None \<Rightarrow> try_urls body us \<lparr>last_err = last_err st, contacted = contacted st @ [u]\<rparr>
      | Inr (Some data) \<Rightarrow>
          (Some data, \<lparr>last_err = last_err st, contacted = contacted st @ [u]\<rparr>))"

text \<open>\<^verbatim>\<open>f"{last_err}"\<close>\<close>

definition format_last_err :: "exn option \<Rightarrow> ustr" where
  "format_last_err e = (case e of None \<Rightarrow> ascii ''None'' | Some x \<Rightarrow> exn_str x)"

definition exit_prefix :: ustr where
  "exit_prefix =
     ascii ''Impossible de r'' @ 233 # ascii ''cup'' @ 233 # ascii ''rer les r'' @ 233 #
     ascii ''gions (geo.api.gouv.fr et sources de secours indisponibles). Derni'' @ 232 #
     ascii ''re erreur: ''"

text \<open>
  The function returns the collection or raises \<^verbatim>\<open>SystemExit\<close> with a message; the
  second component is the list of the URLs requested, in order.
\<close>

datatype fetch_result = Returned json | SystemExit ustr

definition fetch_regions_geojson :: "(url \<Rightarrow> attempt) \<Rightarrow> fetch_result \<times> url list" where
  "fetch_regions_geojson net =
     (case try_urls (attempt_primary net) candidate_urls \<lparr>last_err = None, contacted = []\<rparr> of
        (Some data, st) \<Rightarrow> (Returned data, contacted st)
      | (None, st) \<Rightarrow>
          (case try_urls (attempt_fallback net) fallbacks st of
             (Some data, st') \<Rightarrow> (Returned data, contacted st')
           | (None, st') \<Rightarrow>
               (SystemExit (exit_prefix @ format_last_err (last_err st')), contacted st')))"


text \<open>
  Vocabulary of the properties of the resolver. The errors raised by a list of
  candidates, in order; the last of them, after those seen before; a response as the
  specification words a success, a dict with a non-empty list of features.
\<close>

definition errors_of :: "(url \<Rightarrow> exn + json option) \<Rightarrow> url list \<Rightarrow> exn list" where
  "errors_of body us = concat (map (\<lambda>u. case body u of Inl e \<Rightarrow> [e] | Inr r \<Rightarrow> []) us)"

definition latest :: "exn option \<Rightarrow> exn list \<Rightarrow> exn option" where
  "latest before es = (if es = [] then before else Some (last es))"

definition succeeds :: "(url \<Rightarrow> exn + json option) \<Rightarrow> url \<Rightarrow> bool" where
  "succeeds body u = (case body u of Inr (Some data) \<Rightarrow> True | _ \<Rightarrow> False)"

definition valid_collection :: "attempt \<Rightarrow> bool" where
  "valid_collection a =
     (case a of
        Body (JDict kvs) \<Rightarrow>
          (case map_of kvs (ascii ''features'') of Some (JList (f # fs)) \<Rightarrow> True | _ \<Rightarrow> False)
      | _ \<Rightarrow> False)"


definition first_valid :: "(url \<Rightarrow> attempt) \<Rightarrow> url list \<Rightarrow> attempt option" where
  "first_valid net us = (case filter (\<lambda>u. valid_collection (net u)) us of [] \<Rightarrow> None | u # _ \<Rightarrow> Some (net u))"

text \<open>
  Some networks: one that answers the same to every URL; one whose third primary URL
  alone answers, with the collection of the scenario; one where only the two fallback
  URLs answer, the first with a collection whose only feature is the number 5.
\<close>

definition always :: "attempt \<Rightarrow> url \<Rightarrow> attempt" where
  "always a u = a"

definition net_third :: "url \<Rightarrow> attempt" where
  "net_third u =
     (if u = candidate_urls ! 2 then Body two_features
      else TransportError (ascii ''timed out''))"

definition net_odd :: "url \<Rightarrow> attempt" where
  "net_odd u =
     (if u = fallbacks ! 0 then Body (JDict [(ascii ''features'', JList [JInt 5])])
      else if u = fallbacks ! 1
      then Body (JDict [(ascii ''features'', JList [named_feature (ascii ''Corse'')])])
      else TransportError (ascii ''timed out''))"

section \<open>Properties of the Enricher\<close>

subsection \<open>Dicts\<close>

lemma map_of_dict_set:
  "map_of (dict_set k v kvs) k' = (if k' = k then Some v else map_of kvs k')"
  by (induction kvs) auto

lemma dict_set_triv: "map_of kvs k = Some v \<Longrightarrow> dict_set k v kvs = kvs"
  by (induction kvs) (auto split: if_splits)

lemma dict_set_idem: "dict_set k v (dict_set k v' kvs) = dict_set k v kvs"
  by (induction kvs) auto

lemma dict_set_not_Nil: "dict_set k v kvs \<noteq> []"
  by (cases kvs) (auto split: if_splits)

lemma ascii_eq_iff: "ascii s = ascii t \<longleftrightarrow> s = t"
proof -
  have "inj (of_char :: char \<Rightarrow> nat)"
    by (metis char_of_char injI)
  then show ?thesis
    by (simp add: ascii_def inj_map_eq_map)
qed

lemma dict_get_dict_set:
  "dict_get (dict_set k v kvs) k' = (if k' = k then v else dict_get kvs k')"
  by (simp add: dict_get_def dict_get_default_def map_of_dict_set)

lemma join_name_dict_set:
  "k \<noteq> ascii ''nom'' \<Longrightarrow> k \<noteq> ascii ''name'' \<Longrightarrow> join_name (dict_set k v kvs) = join_name kvs"
  by (simp add: join_name_def dict_get_dict_set)

lemma enrich_props_join_name:
  "join_name (snd (enrich_props tot meta props)) = join_name props"
  by (simp add: enrich_props_def Let_def join_name_dict_set ascii_eq_iff split: sum.splits)

lemma enrich_props_idem:
  "enrich_props tot meta (snd (enrich_props tot meta props)) = enrich_props tot meta props"
  by (simp add: enrich_props_def Let_def dict_set_triv map_of_dict_set ascii_eq_iff split: sum.splits)

lemma enrich_props_not_Nil:
  "enrich_props tot meta props = (None, props') \<Longrightarrow> props' \<noteq> []"
  by (auto simp: enrich_props_def Let_def dict_set_not_Nil split: sum.splits if_splits)

lemma get_properties_set:
  "dict_get_default (dict_set (ascii ''properties'') v fkv) (ascii ''properties'') d = v"
  by (simp add: dict_get_default_def map_of_dict_set)

lemma py_or_empty_dict: "py_or (JDict pkv) (JDict []) = JDict pkv"
  by (cases pkv) (simp_all add: py_or_def)

lemma enrich_props_keeps_nonempty:
  "props \<noteq> [] \<Longrightarrow> snd (enrich_props tot meta props) \<noteq> []"
  by (auto simp: enrich_props_def Let_def dict_set_not_Nil split: sum.splits if_splits)

lemma enrich_props_idem':
  "enrich_props tot meta props = (r, props') \<Longrightarrow> enrich_props tot meta props' = (r, props')"
  using enrich_props_idem [of tot meta props] by simp

lemma enrich_props_join_name':
  "enrich_props tot meta props = (r, props') \<Longrightarrow> join_name props' = join_name props"
  using enrich_props_join_name [of tot meta props] by simp

lemma enrich_feature_idem_dict:
  "enrich_feature tbl tot (snd (enrich_feature tbl tot (JDict fkv))) =
   enrich_feature tbl tot (JDict fkv)"
proof -
  define p where "p = dict_get_default fkv (ascii ''properties'') (JDict [])"
  show ?thesis
  proof (cases "py_or p (JDict [])")
    case pkv: (JDict pkv)
    have unfold: "enrich_feature tbl tot (JDict fkv) =
      (case table_get tbl (join_name pkv) of
         Inl e \<Rightarrow> (Some e, JDict fkv)
       | Inr None \<Rightarrow> (None, JDict (dict_set (ascii ''properties'') (JDict pkv) fkv))
       | Inr (Some meta) \<Rightarrow>
           (case enrich_props tot meta pkv of
              (None, pkv') \<Rightarrow> (None, JDict (dict_set (ascii ''properties'') (JDict pkv') fkv))
            | (Some e, pkv') \<Rightarrow>
                (Some e, if truthy p
                         then JDict (dict_set (ascii ''properties'') (JDict pkv') fkv)
                         else JDict fkv)))"
      by (simp add: enrich_feature_def p_def [symmetric] pkv Let_def)
    have again: "enrich_feature tbl tot (JDict (dict_set (ascii ''properties'') (JDict qkv) fkv)) =
      (case table_get tbl (join_name qkv) of
         Inl e \<Rightarrow> (Some e, JDict (dict_set (ascii ''properties'') (JDict qkv) fkv))
       | Inr None \<Rightarrow> (None, JDict (dict_set (ascii ''properties'') (JDict qkv) fkv))
       | Inr (Some meta) \<Rightarrow>
           (case enrich_props tot meta qkv of
              (None, pkv') \<Rightarrow> (None, JDict (dict_set (ascii ''properties'') (JDict pkv') fkv))
            | (Some e, pkv') \<Rightarrow>
                (Some e, if qkv \<noteq> []
                         then JDict (dict_set (ascii ''properties'') (JDict pkv') fkv)
                         else JDict (dict_set (ascii ''properties'') (JDict qkv) fkv))))" for qkv
      by (simp add: enrich_feature_def get_properties_set py_or_empty_dict Let_def dict_set_idem
               split: sum.splits option.splits prod.splits)
    show ?thesis
    proof (cases "table_get tbl (join_name pkv)")
      case (Inl e)
      then show ?thesis by (simp add: unfold)
    next
      case (Inr m)
      show ?thesis
      proof (cases m)
        case None
        with Inr show ?thesis by (simp add: unfold again)
      next
        case (Some meta)
        obtain r pkv' where ep: "enrich_props tot meta pkv = (r, pkv')"
          by (cases "enrich_props tot meta pkv")
        note ep' = enrich_props_idem' [OF ep] and jn = enrich_props_join_name' [OF ep]
        show ?thesis
        proof (cases r)
          case None
          with Inr Some ep ep' jn show ?thesis by (simp add: unfold again)
        next
          case (Some e)
          show ?thesis
          proof (cases "truthy p")
            case True
            with pkv have "p = JDict pkv" by (simp add: py_or_def)
            with True have "pkv \<noteq> []" by simp
            then have "pkv' \<noteq> []"
              using enrich_props_keeps_nonempty [of pkv tot meta] ep by simp
            with Inr \<open>m = Some meta\<close> Some True ep ep' jn show ?thesis
              by (simp add: unfold again)
          next
            case False
            with Inr \<open>m = Some meta\<close> Some ep show ?thesis
              by (simp add: unfold)
          qed
        qed
      qed
    qed
  qed (simp_all add: enrich_feature_def p_def[symmetric] Let_def)
qed

lemma enrich_feature_idem:
  "enrich_feature tbl tot (snd (enrich_feature tbl tot feat)) = enrich_feature tbl tot feat"
  by (cases feat) (simp_all add: enrich_feature_idem_dict, simp_all add: enrich_feature_def)

lemma enrich_feature_ok_again:
  "enrich_feature tbl tot feat = (None, feat') \<Longrightarrow> enrich_feature tbl tot feat' = (None, feat')"
  using enrich_feature_idem [of tbl tot feat] by simp

lemma enrich_feature_err_again:
  "enrich_feature tbl tot feat = (Some e, feat') \<Longrightarrow> enrich_feature tbl tot feat' = (Some e, feat')"
  using enrich_feature_idem [of tbl tot feat] by simp

lemma enrich_features_idem:
  "enrich_features tbl tot (snd (enrich_features tbl tot feats)) = enrich_features tbl tot feats"
proof (induction feats)
  case Nil
  show ?case by simp
next
  case (Cons feat feats)
  obtain r feat' where ef: "enrich_feature tbl tot feat = (r, feat')"
    by (cases "enrich_feature tbl tot feat")
  obtain r' feats' where efs: "enrich_features tbl tot feats = (r', feats')"
    by (cases "enrich_features tbl tot feats")
  show ?case
  proof (cases r)
    case None
    with ef efs Cons enrich_feature_ok_again [of tbl tot feat feat'] show ?thesis
      by simp
  next
    case (Some e)
    with ef enrich_feature_err_again [of tbl tot feat e feat'] show ?thesis
      by simp
  qed
qed

lemma enrich_features_Nil_iff:
  "snd (enrich_features tbl tot feats) = [] \<longleftrightarrow> feats = []"
  by (cases feats) (auto split: prod.splits option.splits)

lemma enrich_with_idem:
  "enrich_with tbl (snd (enrich_with tbl geojson)) = enrich_with tbl geojson"
proof (cases geojson)
  case (JDict gkv)
  show ?thesis
  proof (cases "dict_get_default gkv (ascii ''features'') (JList [])")
    case (JList feats)
    obtain r feats' where ef: "enrich_features tbl (total_pop tbl) feats = (r, feats')"
      by (cases "enrich_features tbl (total_pop tbl) feats")
    have again: "enrich_features tbl (total_pop tbl) feats' = (r, feats')"
      using enrich_features_idem [of tbl "total_pop tbl" feats] ef by simp
    have ne: "feats' = [] \<longleftrightarrow> feats = []"
      using enrich_features_Nil_iff [of tbl "total_pop tbl" feats] ef by simp
    show ?thesis
    proof (cases "feats = []")
      case True
      with JDict JList ef show ?thesis by (simp add: enrich_with_def)
    next
      case False
      with JDict JList ef again ne show ?thesis
        by (simp add: enrich_with_def get_properties_set dict_get_default_def map_of_dict_set
              dict_set_idem)
    qed
  qed (simp_all add: enrich_with_def JDict split: list.splits)
qed (simp_all add: enrich_with_def)

subsection \<open>The fields of the table\<close>

lemmas float_eval = to_double_def round_at_def binexp_def binexp_up.simps binexp_down.simps
  pow2_def round_half_even_def
lemmas arith_eval = float_of_int_def int_div_float_def int_truediv_def py_round_def decimal_round_def
  compute_dens_def compute_share_def

text \<open>
  Two checks of the rounding to binary64 against known values: the float nearest to one
  tenth, and an integer of the table, which is its own float.
\<close>

lemma to_double_tenth: "to_double (1 / 10) = Fin (3602879701896397 / 36028797018963968)"
  by (simp add: float_eval)

lemma to_double_small_int: "to_double 27208 = Fin 27208"
  by (simp add: float_eval)

lemma total_pop_mapping: "total_pop mapping = 67631065"
  by (simp add: total_pop_def mapping_def)

lemma table_fields:
  "\<forall>(nm, meta) \<in> set mapping.
      float_of_int (surface_km2 meta) = Inr (Fin (of_int (surface_km2 meta)))
    \<and> compute_dens (population meta) (Fin (of_int (surface_km2 meta))) = Inr (rounded_density meta)
    \<and> compute_share (population meta) 67631065 = Inr (rounded_share 67631065 meta)"
  by (simp add: mapping_def, simp add: rounded_density_def rounded_share_def arith_eval float_eval)

lemma enrich_props_table:
  assumes "(nm, meta) \<in> set mapping"
  shows "enrich_props (total_pop mapping) meta props = (None, enriched_props meta props)"
  using table_fields assms
  by (auto simp add: enrich_props_def enriched_props_def total_pop_mapping Let_def)

lemma enrich_feature_in_table:
  assumes "map_of mapping nm = Some meta"
    and "dict_get_default fkv (ascii ''properties'') (JDict []) = JDict pkv"
    and "join_name pkv = JStr nm"
  shows "enrich_feature mapping (total_pop mapping) (JDict fkv) =
           (None, JDict (dict_set (ascii ''properties'') (JDict (enriched_props meta pkv)) fkv))"
proof -
  from assms(1) have "(nm, meta) \<in> set mapping" by (rule map_of_SomeD)
  then have "enrich_props (total_pop mapping) meta pkv = (None, enriched_props meta pkv)"
    by (rule enrich_props_table)
  with assms show ?thesis
    by (simp add: enrich_feature_def py_or_empty_dict table_get_def)
qed

subsection \<open>Features of a collection\<close>

lemma enrich_features_length:
  "length (snd (enrich_features tbl tot feats)) = length feats"
  by (induction feats) (auto split: prod.splits option.splits)

lemma enrich_features_nth:
  "i < length feats \<Longrightarrow>
   snd (enrich_features tbl tot feats) ! i = feats ! i
   \<or> snd (enrich_features tbl tot feats) ! i = snd (enrich_feature tbl tot (feats ! i))"
proof (induction feats arbitrary: i)
  case Nil
  then show ?case by simp
next
  case (Cons feat feats)
  show ?case
  proof (cases i)
    case 0
    then show ?thesis by (auto split: prod.splits option.splits)
  next
    case (Suc j)
    with Cons.prems have "j < length feats" by simp
    from Cons.IH [OF this] Suc show ?thesis
      by (auto split: prod.splits option.splits)
  qed
qed

lemma enrich_features_nth_ok:
  "fst (enrich_features tbl tot feats) = None \<Longrightarrow> i < length feats \<Longrightarrow>
   snd (enrich_features tbl tot feats) ! i = snd (enrich_feature tbl tot (feats ! i))"
proof (induction feats arbitrary: i)
  case Nil
  then show ?case by simp
next
  case (Cons feat feats)
  obtain r feat' where ef: "enrich_feature tbl tot feat = (r, feat')"
    by (cases "enrich_feature tbl tot feat")
  obtain r' feats' where efs: "enrich_features tbl tot feats = (r', feats')"
    by (cases "enrich_features tbl tot feats")
  from Cons.prems(1) ef efs have none: "r = None" "r' = None"
    by (cases r; simp)+
  show ?case
  proof (cases i)
    case 0
    with ef efs none show ?thesis by simp
  next
    case (Suc j)
    with Cons.prems have "j < length feats" by simp
    with Cons.IH [of j] efs none Suc ef show ?thesis by simp
  qed
qed

lemma features_of_enrich_with:
  "features_of (snd (enrich_with tbl geojson)) =
   snd (enrich_features tbl (total_pop tbl) (features_of geojson))"
proof (cases geojson)
  case (JDict gkv)
  show ?thesis
  proof (cases "dict_get_default gkv (ascii ''features'') (JList [])")
    case (JList feats)
    with JDict show ?thesis
      by (cases feats)
         (auto simp: enrich_with_def features_of_def dict_get_default_def map_of_dict_set
               split: prod.splits option.splits)
  qed (simp_all add: enrich_with_def features_of_def JDict split: list.splits)
qed (simp_all add: enrich_with_def features_of_def)

lemma fst_enrich_with_features:
  "fst (enrich_with tbl geojson) = None \<Longrightarrow>
   fst (enrich_features tbl (total_pop tbl) (features_of geojson)) = None"
  by (auto simp: enrich_with_def features_of_def split: json.splits prod.splits list.splits)

lemma truthy_bag_properties:
  assumes "truthy (dict_get_default fkv (ascii ''properties'') (JDict []))"
  shows "map_of fkv (ascii ''properties'') =
         Some (dict_get_default fkv (ascii ''properties'') (JDict []))"
  using assms by (cases "map_of fkv (ascii ''properties'')") (simp_all add: dict_get_default_def)

lemma enrich_feature_unmatched:
  assumes "\<not> in_table tbl (feature_name feat)"
  shows "feature_bag (snd (enrich_feature tbl tot feat)) = feature_bag feat
       \<and> (truthy (feature_bag feat) \<longrightarrow> snd (enrich_feature tbl tot feat) = feat)"
proof (cases feat)
  case (JDict fkv)
  define p where "p = dict_get_default fkv (ascii ''properties'') (JDict [])"
  have bag: "feature_bag feat = py_or p (JDict [])"
    by (simp add: feature_bag_def JDict p_def)
  show ?thesis
  proof (cases "py_or p (JDict [])")
    case pkv: (JDict pkv)
    from assms bag pkv have notin: "\<not> in_table tbl (join_name pkv)"
      by (simp add: feature_name_def)
    have set_bag: "feature_bag (JDict (dict_set (ascii ''properties'') (JDict pkv) fkv)) = JDict pkv"
      by (simp add: feature_bag_def get_properties_set py_or_empty_dict)
    have same: "dict_set (ascii ''properties'') (JDict pkv) fkv = fkv" if "pkv \<noteq> []"
    proof -
      from that pkv have "p = JDict pkv" "truthy p"
        by (auto simp: py_or_def split: if_splits)
      with truthy_bag_properties [of fkv] show ?thesis
        by (simp add: p_def dict_set_triv)
    qed
    show ?thesis
    proof (cases "table_get tbl (join_name pkv)")
      case (Inl e)
      with JDict pkv show ?thesis
        by (simp add: enrich_feature_def p_def [symmetric])
    next
      case (Inr m)
      with notin have "m = None"
        by (cases m) (auto simp: table_get_def in_table_def split: json.splits)
      with Inr JDict pkv bag set_bag same show ?thesis
        by (simp add: enrich_feature_def p_def [symmetric])
    qed
  qed (simp_all add: enrich_feature_def JDict p_def [symmetric] bag)
qed (simp_all add: enrich_feature_def)

lemma ascii_neq [simp]: "s \<noteq> t \<Longrightarrow> ascii s \<noteq> ascii t"
  by (simp add: ascii_eq_iff)

lemma enriched_props_get:
  "dict_get (enriched_props meta props) (ascii ''population'') = JInt (population meta)"
  "dict_get (enriched_props meta props) (ascii ''surface_km2'') =
     JFloat (Fin (of_int (surface_km2 meta)))"
  "dict_get (enriched_props meta props) (ascii ''densite_km2'') = rounded_density meta"
  "dict_get (enriched_props meta props) (ascii ''part_population_pct'') =
     rounded_share (total_pop mapping) meta"
  by (simp_all add: enriched_props_def dict_get_dict_set ascii_eq_iff)

lemma feature_prop_set:
  "props \<noteq> [] \<Longrightarrow>
   feature_prop (JDict (dict_set (ascii ''properties'') (JDict props) fkv)) k = dict_get props k"
  by (simp add: feature_prop_def feature_bag_def get_properties_set py_or_empty_dict)

lemma enriched_props_not_Nil: "enriched_props meta props \<noteq> []"
  by (simp add: enriched_props_def dict_set_not_Nil)

lemma ascii_Nil_iff [simp]: "ascii s = [] \<longleftrightarrow> s = []"
  by (simp add: ascii_def)

lemma map_of_mapping_Bretagne:
  "map_of mapping (ascii ''Bretagne'') = Some \<lparr>population = 3420000, surface_km2 = 27208\<rparr>"
  by (simp add: mapping_def ascii_def)

lemma map_of_mapping_Unknown: "map_of mapping (ascii ''Unknown Land'') = None"
  by (simp add: mapping_def ascii_def)

lemma Bretagne_fields:
  "rounded_density \<lparr>population = 3420000, surface_km2 = 27208\<rparr> =
     JFloat (Fin (8845351143132365 / 70368744177664))"
  "rounded_share (total_pop mapping) \<lparr>population = 3420000, surface_km2 = 27208\<rparr> =
     JFloat (Fin (5697053528623677 / 1125899906842624))"
  "quotient_density \<lparr>population = 3420000, surface_km2 = 27208\<rparr> =
     JFloat (Fin (8845233206689609 / 70368744177664))"
  by (simp_all add: rounded_density_def rounded_share_def quotient_density_def total_pop_mapping
        decimal_round_def float_eval)

lemma enrich_Bretagne:
  "enrich_feature mapping (total_pop mapping) (named_feature (ascii ''Bretagne'')) =
     (None, JDict [(ascii ''properties'',
        JDict [(ascii ''nom'', JStr (ascii ''Bretagne'')),
               (ascii ''population'', JInt 3420000),
               (ascii ''surface_km2'', JFloat (Fin 27208)),
               (ascii ''densite_km2'', JFloat (Fin (8845351143132365 / 70368744177664))),
               (ascii ''part_population_pct'',
                  JFloat (Fin (5697053528623677 / 1125899906842624)))])])"
proof -
  have "enrich_feature mapping (total_pop mapping) (named_feature (ascii ''Bretagne'')) =
        (None, JDict (dict_set (ascii ''properties'')
            (JDict (enriched_props \<lparr>population = 3420000, surface_km2 = 27208\<rparr>
                      [(ascii ''nom'', JStr (ascii ''Bretagne''))]))
            [(ascii ''properties'', JDict [(ascii ''nom'', JStr (ascii ''Bretagne''))])]))"
    unfolding named_feature_def
    by (rule enrich_feature_in_table [OF map_of_mapping_Bretagne])
       (simp_all add: dict_get_default_def join_name_def dict_get_def py_or_def)
  then show ?thesis
    by (simp add: enriched_props_def Bretagne_fields ascii_eq_iff)
qed

lemma enrich_Unknown:
  "enrich_feature mapping (total_pop mapping) (named_feature (ascii ''Unknown Land'')) =
     (None, named_feature (ascii ''Unknown Land''))"
  by (simp add: named_feature_def enrich_feature_def dict_get_default_def join_name_def
        dict_get_def py_or_def table_get_def map_of_mapping_Unknown)

lemma enrich_two_features:
  "enrich_regions_metadata two_features =
     (None, JDict [(ascii ''features'', JList
        [JDict [(ascii ''properties'',
           JDict [(ascii ''nom'', JStr (ascii ''Bretagne'')),
                  (ascii ''population'', JInt 3420000),
                  (ascii ''surface_km2'', JFloat (Fin 27208)),
                  (ascii ''densite_km2'', JFloat (Fin (8845351143132365 / 70368744177664))),
                  (ascii ''part_population_pct'',
                     JFloat (Fin (5697053528623677 / 1125899906842624)))])],
         named_feature (ascii ''Unknown Land'')])])"
  by (simp add: enrich_regions_metadata_def enrich_with_def two_features_def
        dict_get_default_def enrich_Bretagne enrich_Unknown)

subsection \<open>The claims about the Enricher\<close>

text \<open>
  Claim C1, amended. In a run that ends without exception, a feature whose join name is
  a key of the table has, after the run, its property dict updated in four fields:
  the population and the area of the table; the density, which is the population divided
  by the area, rounded to one decimal (null when the area is zero); and the share, which
  is 100 times the population divided by the sum of the populations of the table,
  rounded to two decimals. For the 18 entries of the table, rounding the float quotient
  (what the program does) and rounding the exact quotient give the same float. No entry
  of the table has a zero area; on a zero area the density computed is null.
\<close>

theorem enrich_sets_table_fields:
  assumes "fst (enrich_regions_metadata geojson) = None"
    and "i < length (features_of geojson)"
    and "features_of geojson ! i = JDict fkv"
    and "dict_get_default fkv (ascii ''properties'') (JDict []) = JDict pkv"
    and "join_name pkv = JStr nm"
    and "map_of mapping nm = Some meta"
  shows "features_of (snd (enrich_regions_metadata geojson)) ! i =
           JDict (dict_set (ascii ''properties'') (JDict (enriched_props meta pkv)) fkv)
       \<and> feature_prop (features_of (snd (enrich_regions_metadata geojson)) ! i)
             (ascii ''population'') = JInt (population meta)
       \<and> feature_prop (features_of (snd (enrich_regions_metadata geojson)) ! i)
             (ascii ''surface_km2'') = JFloat (Fin (of_int (surface_km2 meta)))
       \<and> feature_prop (features_of (snd (enrich_regions_metadata geojson)) ! i)
             (ascii ''densite_km2'') = rounded_density meta
       \<and> feature_prop (features_of (snd (enrich_regions_metadata geojson)) ! i)
             (ascii ''part_population_pct'') = rounded_share (total_pop mapping) meta
       \<and> compute_dens (population meta) (Fin 0) = Inr JNull"
proof -
  from assms(1) have "fst (enrich_features mapping (total_pop mapping) (features_of geojson)) = None"
    unfolding enrich_regions_metadata_def by (rule fst_enrich_with_features)
  from enrich_features_nth_ok [OF this assms(2)] assms(3)
    enrich_feature_in_table [OF assms(6) assms(4) assms(5)]
  have "features_of (snd (enrich_regions_metadata geojson)) ! i =
           JDict (dict_set (ascii ''properties'') (JDict (enriched_props meta pkv)) fkv)"
    by (simp add: enrich_regions_metadata_def features_of_enrich_with)
  then show ?thesis
    by (simp add: feature_prop_set enriched_props_not_Nil enriched_props_get compute_dens_def)
qed

text \<open>
  The scenario of the specification: after the run, the feature named Bretagne has
  population 3420000, area 27208.0, density the float nearest to 125.7 and share the
  float nearest to 5.06.
\<close>

theorem enrich_sets_table_fields_witness:
  "features_of (snd (enrich_regions_metadata two_features)) ! 0 =
     JDict [(ascii ''properties'',
        JDict [(ascii ''nom'', JStr (ascii ''Bretagne'')),
               (ascii ''population'', JInt 3420000),
               (ascii ''surface_km2'', JFloat (Fin 27208)),
               (ascii ''densite_km2'', JFloat (Fin (8845351143132365 / 70368744177664))),
               (ascii ''part_population_pct'',
                  JFloat (Fin (5697053528623677 / 1125899906842624)))])]
   \<and> \<bar>8845351143132365 / 70368744177664 - 1257 / 10\<bar> < (1 / 10 ^ 13 :: real)"
proof -
  have h1: "fst (enrich_regions_metadata two_features) = None"
    by (simp add: enrich_two_features)
  have h2: "0 < length (features_of two_features)"
    by (simp add: features_of_def two_features_def dict_get_default_def)
  have h3: "features_of two_features ! 0 =
      JDict [(ascii ''properties'', JDict [(ascii ''nom'', JStr (ascii ''Bretagne''))])]"
    by (simp add: features_of_def two_features_def dict_get_default_def named_feature_def)
  have h4: "dict_get_default [(ascii ''properties'', JDict [(ascii ''nom'', JStr (ascii ''Bretagne''))])]
      (ascii ''properties'') (JDict []) = JDict [(ascii ''nom'', JStr (ascii ''Bretagne''))]"
    by (simp add: dict_get_default_def)
  have h5: "join_name [(ascii ''nom'', JStr (ascii ''Bretagne''))] = JStr (ascii ''Bretagne'')"
    by (simp add: join_name_def dict_get_def dict_get_default_def py_or_def)
  from enrich_sets_table_fields [OF h1 h2 h3 h4 h5 map_of_mapping_Bretagne] show ?thesis
    by (simp add: enriched_props_def Bretagne_fields ascii_eq_iff)
qed

text \<open>
  Claim C1 as it is stated fails: the density written for Bretagne is not the quotient
  of its population by its area (125.698...), it is that quotient rounded to one
  decimal.
\<close>

theorem density_is_not_plain_quotient:
  "feature_prop (features_of (snd (enrich_regions_metadata two_features)) ! 0)
      (ascii ''densite_km2'')
   \<noteq> quotient_density \<lparr>population = 3420000, surface_km2 = 27208\<rparr>"
  by (simp add: enrich_two_features features_of_def dict_get_default_def feature_prop_def
        feature_bag_def py_or_def dict_get_def Bretagne_fields ascii_eq_iff)

text \<open>
  Claim C7. A feature whose join name is not a key of the table keeps its property bag:
  the bag read after the run is the bag read before, so no enrichment field is added
  and none is zero-filled. When the feature holds a non-empty property dict the whole
  feature is unchanged; otherwise the only change is that \<^verbatim>\<open>"properties"\<close> now holds
  the empty dict the bag was read as.
\<close>

theorem unmatched_feature_keeps_bag:
  assumes "i < length (features_of geojson)"
    and "\<not> in_table mapping (feature_name (features_of geojson ! i))"
  shows "length (features_of (snd (enrich_regions_metadata geojson))) =
           length (features_of geojson)
       \<and> feature_bag (features_of (snd (enrich_regions_metadata geojson)) ! i) =
           feature_bag (features_of geojson ! i)
       \<and> (truthy (feature_bag (features_of geojson ! i)) \<longrightarrow>
            features_of (snd (enrich_regions_metadata geojson)) ! i = features_of geojson ! i)"
  using enrich_features_nth [OF assms(1), of mapping "total_pop mapping"]
    enrich_feature_unmatched [OF assms(2), of "total_pop mapping"]
  by (auto simp: enrich_regions_metadata_def features_of_enrich_with enrich_features_length)

theorem unmatched_feature_keeps_bag_witness:
  "feature_bag (features_of (snd (enrich_regions_metadata two_features)) ! 1) =
     JDict [(ascii ''nom'', JStr (ascii ''Unknown Land''))]
   \<and> features_of (snd (enrich_regions_metadata two_features)) ! 1 =
     named_feature (ascii ''Unknown Land'')"
proof -
  have fs: "features_of two_features =
      [named_feature (ascii ''Bretagne''), named_feature (ascii ''Unknown Land'')]"
    by (simp add: features_of_def two_features_def dict_get_default_def)
  have bag: "feature_bag (named_feature (ascii ''Unknown Land'')) =
      JDict [(ascii ''nom'', JStr (ascii ''Unknown Land''))]"
    by (simp add: feature_bag_def named_feature_def dict_get_default_def py_or_def)
  have h1: "1 < length (features_of two_features)"
    by (simp add: fs)
  have h2: "\<not> in_table mapping (feature_name (features_of two_features ! 1))"
    by (simp add: fs feature_name_def bag join_name_def dict_get_def dict_get_default_def
          py_or_def in_table_def map_of_mapping_Unknown)
  from unmatched_feature_keeps_bag [OF h1 h2] show ?thesis
    by (simp add: fs bag)
qed

text \<open>
  Claim C8. The Enricher is idempotent: run on the collection that a first run leaves,
  it leaves that same collection, and ends the same way. Fields are overwritten, never
  accumulated. This holds for every value passed as the collection, also when the run
  ends by an exception.
\<close>

theorem enrich_idempotent:
  "enrich_regions_metadata (snd (enrich_regions_metadata geojson)) =
   enrich_regions_metadata geojson"
  unfolding enrich_regions_metadata_def by (rule enrich_with_idem)

theorem enrich_idempotent_witness:
  "enrich_regions_metadata (snd (enrich_regions_metadata two_features)) =
   enrich_regions_metadata two_features
   \<and> fst (enrich_regions_metadata two_features) = None"
  using enrich_idempotent [of two_features] by (simp add: enrich_two_features)



section \<open>Properties of the colour of a density\<close>

lemma density_color_float:
  "density_color parse (JFloat x) =
     Inr (if float_less x 50 then ''#D4EEFF'' else if float_less x 100 then ''#9BD1FF''
          else if float_less x 150 then ''#6FB2FF'' else if float_less x 250 then ''#3D7CFF''
          else if float_less x 500 then ''#2E6EEA'' else ''#1F4DBF'')"
  by (simp add: density_color_def py_float_def)

lemma bucket_eq:
  "bucket d =
     Inr (if d < 50 then ''#D4EEFF'' else if d < 100 then ''#9BD1FF''
          else if d < 150 then ''#6FB2FF'' else if d < 250 then ''#3D7CFF''
          else if d < 500 then ''#2E6EEA'' else ''#1F4DBF'')"
  by (simp add: bucket_def density_color_float)

lemma density_color_float_in_colors:
  "\<exists>c \<in> set bucket_colors. density_color parse (JFloat x) = Inr c"
  by (simp add: density_color_float bucket_colors_def)

lemma density_color_int:
  "(\<exists>c \<in> set bucket_colors. density_color parse (JInt i) = Inr c)
   \<or> density_color parse (JInt i) =
        Inl (OverflowError (ascii ''int too large to convert to float''))"
proof (cases "to_double (of_int i)")
  case (Fin r)
  then have "density_color parse (JInt i) = density_color parse (JFloat (Fin r))"
    by (simp add: density_color_def py_float_def float_of_int_def)
  with density_color_float_in_colors [of parse "Fin r"] show ?thesis by simp
qed (simp_all add: density_color_def py_float_def float_of_int_def)

lemma density_color_default:
  "density_color parse JNull = Inr ''#2E6EEA''"
  "density_color parse (JList xs) = Inr ''#2E6EEA''"
  "density_color parse (JDict kvs) = Inr ''#2E6EEA''"
  "parse s = None \<Longrightarrow> density_color parse (JStr s) = Inr ''#2E6EEA''"
  by (simp_all add: density_color_def py_float_def)

lemma literal_49_999: "to_double (49999 / 1000) = Fin (7036733680278045 / 140737488355328)"
  by (simp add: float_eval)

lemma literal_99_999: "to_double (99999 / 1000) = Fin (3518402024511111 / 35184372088832)"
  by (simp add: float_eval)

lemma to_double_large: "to_double (2 ^ 1024) = PInf"
  by (simp add: float_eval)

lemma density_color_overflow:
  assumes "to_double (of_int i) = PInf"
  shows "density_color parse (JInt i) =
           Inl (OverflowError (ascii ''int too large to convert to float''))"
  using assms by (simp add: density_color_def py_float_def float_of_int_def)

lemma density_color_huge_int:
  "density_color parse (JInt (2 ^ 1024)) =
     Inl (OverflowError (ascii ''int too large to convert to float''))"
  using to_double_large by (intro density_color_overflow) simp

text \<open>
  Claim C2. The boundaries 50, 100, 150, 250 and 500 are inclusive below and exclusive
  above: the colour at a boundary differs from the colour of every smaller density and
  is the colour of every density up to the next boundary. So the float 49.999 and the
  float 50.0 have different colours, 50.0 and 99.999 have the same, and a density of
  exactly 50 is in the second bucket, not in the first.
\<close>

theorem bucket_boundaries:
  "(\<forall>t \<in> set thresholds. \<forall>d. d < t \<longrightarrow> bucket d \<noteq> bucket t)
   \<and> (\<forall>d. 50 \<le> d \<and> d < 100 \<longrightarrow> bucket d = bucket 50)
   \<and> (\<forall>d. 100 \<le> d \<and> d < 150 \<longrightarrow> bucket d = bucket 100)
   \<and> (\<forall>d. 150 \<le> d \<and> d < 250 \<longrightarrow> bucket d = bucket 150)
   \<and> (\<forall>d. 250 \<le> d \<and> d < 500 \<longrightarrow> bucket d = bucket 250)
   \<and> (\<forall>d. 500 \<le> d \<longrightarrow> bucket d = bucket 500)
   \<and> density_color parse (JFloat (to_double (49999 / 1000))) \<noteq>
       density_color parse (JFloat (to_double 50))
   \<and> density_color parse (JFloat (to_double 50)) =
       density_color parse (JFloat (to_double (99999 / 1000)))
   \<and> bucket 50 = Inr (bucket_colors ! 1)
   \<and> bucket 50 \<noteq> Inr (bucket_colors ! 0)"
proof -
  have fifty: "to_double 50 = Fin 50"
    by (simp add: float_eval)
  show ?thesis
    by (simp add: thresholds_def bucket_eq bucket_colors_def density_color_float fifty
          literal_49_999 literal_99_999)
qed

theorem bucket_boundaries_witness:
  "(49999 / 1000 :: real) < 50 \<and> bucket (49999 / 1000) \<noteq> bucket 50
   \<and> (50 :: real) \<le> 99999 / 1000 \<and> (99999 / 1000 :: real) < 100
   \<and> bucket (99999 / 1000) = bucket 50"
proof -
  from bucket_boundaries [of never_parses]
  have a: "\<forall>t \<in> set thresholds. \<forall>d. d < t \<longrightarrow> bucket d \<noteq> bucket t"
    and b: "\<forall>d. 50 \<le> d \<and> d < 100 \<longrightarrow> bucket d = bucket 50"
    by blast+
  have mem: "(50 :: real) \<in> set thresholds" by (simp add: thresholds_def)
  have lt: "(49999 / 1000 :: real) < 50" by simp
  have rng: "(50 :: real) \<le> 99999 / 1000 \<and> (99999 / 1000 :: real) < 100" by simp
  from a [rule_format, OF mem lt] b [rule_format, OF rng] lt rng show ?thesis by blast
qed

text \<open>
  Claim C3, amended. The six buckets have six distinct colours. A missing or non-numeric
  density (\<^verbatim>\<open>None\<close>, a list, a dict, a string that is not a float literal) has the
  default colour, which is not a seventh colour: it is the colour of the bucket 250-500.
  Every float density, whatever its sign, has exactly one of the six colours; so has
  every integer density, except that one beyond the range of the floats makes
  \<^verbatim>\<open>density_color\<close> raise \<^verbatim>\<open>OverflowError\<close>.
\<close>

theorem density_color_six_colors:
  "distinct bucket_colors \<and> length bucket_colors = 6
   \<and> (\<forall>d. d < 50 \<longrightarrow> bucket d = Inr (bucket_colors ! 0))
   \<and> (\<forall>d. 50 \<le> d \<and> d < 100 \<longrightarrow> bucket d = Inr (bucket_colors ! 1))
   \<and> (\<forall>d. 100 \<le> d \<and> d < 150 \<longrightarrow> bucket d = Inr (bucket_colors ! 2))
   \<and> (\<forall>d. 150 \<le> d \<and> d < 250 \<longrightarrow> bucket d = Inr (bucket_colors ! 3))
   \<and> (\<forall>d. 250 \<le> d \<and> d < 500 \<longrightarrow> bucket d = Inr (bucket_colors ! 4))
   \<and> (\<forall>d. 500 \<le> d \<longrightarrow> bucket d = Inr (bucket_colors ! 5))
   \<and> density_color parse JNull = Inr (bucket_colors ! 4)
   \<and> density_color parse (JList xs) = Inr (bucket_colors ! 4)
   \<and> density_color parse (JDict kvs) = Inr (bucket_colors ! 4)
   \<and> (parse s = None \<longrightarrow> density_color parse (JStr s) = Inr (bucket_colors ! 4))
   \<and> (\<exists>c \<in> set bucket_colors. density_color parse (JFloat x) = Inr c)
   \<and> ((\<exists>c \<in> set bucket_colors. density_color parse (JInt i) = Inr c)
      \<or> density_color parse (JInt i) =
           Inl (OverflowError (ascii ''int too large to convert to float'')))"
proof -
  have "distinct bucket_colors \<and> length bucket_colors = 6"
    by (simp add: bucket_colors_def)
  moreover have "bucket_colors ! 4 = ''#2E6EEA''"
    by (simp add: bucket_colors_def)
  moreover note density_color_float_in_colors [of parse x] density_color_int [of parse i]
  ultimately show ?thesis
    by (simp add: density_color_default bucket_eq) (simp add: bucket_colors_def)
qed

theorem density_color_six_colors_witness:
  "bucket 40 = Inr ''#D4EEFF'' \<and> bucket 75 = Inr ''#9BD1FF'' \<and> bucket 120 = Inr ''#6FB2FF''
   \<and> bucket 200 = Inr ''#3D7CFF'' \<and> bucket 300 = Inr ''#2E6EEA'' \<and> bucket 900 = Inr ''#1F4DBF''
   \<and> never_parses (ascii ''abc'') = None
   \<and> density_color never_parses (JStr (ascii ''abc'')) = Inr ''#2E6EEA''"
  using density_color_six_colors [of never_parses "[]" "[]" "ascii ''abc''" "Fin 0" 0]
  by (simp add: bucket_colors_def never_parses_def)

text \<open>
  Claim C3 as it is stated fails: the colour of a missing density is the colour of the
  density 300, so the default is not distinct from the six colours of the buckets.
\<close>

theorem default_color_is_a_bucket_color:
  "density_color never_parses JNull = density_color never_parses (JFloat (Fin 300))"
  by (simp add: density_color_default density_color_float)

section \<open>Properties of the click handler\<close>

lemma encodeURIComponent_eq:
  "\<forall>c \<in> set s. \<not> is_surrogate c \<or> unreserved c \<Longrightarrow> encodeURIComponent s = Some (percent_encoded s)"
  by (induction s) (auto simp: percent_encoded_def)

lemma attach_named:
  assumes "js_prop f (ascii ''properties'') = Some (JDict pkv)"
    and "map_of pkv (ascii ''nom'') = Some (JStr s)"
    and "s \<noteq> []"
    and "\<forall>c \<in> set s. \<not> is_surrogate c"
  shows "attach tostr f = Navigate (click_path s)"
proof -
  from assms(1) have "js_truthy f"
    by (cases f) (simp_all add: js_prop_def)
  moreover from assms(4) have "encodeURIComponent s = Some (percent_encoded s)"
    by (intro encodeURIComponent_eq) simp
  ultimately show ?thesis
    using assms by (simp add: attach_def js_prop_def click_path_def)
qed

lemma attach_Navigate:
  assumes "attach tostr f = Navigate url"
  shows "\<exists>props nom enc. js_prop f (ascii ''properties'') = Some props
           \<and> js_prop props (ascii ''nom'') = Some nom \<and> js_truthy nom
           \<and> encodeURIComponent (case nom of JStr s \<Rightarrow> s | _ \<Rightarrow> tostr nom) = Some enc
           \<and> url = ascii ''R'' @ 233 # ascii ''gions/'' @ enc @ ascii ''.HTML''"
  using assms by (auto simp: attach_def split: if_splits option.splits)

lemma percent_encoded_example: "percent_encoded (206 # ascii ''le-de-France'') = ascii ''%C3%8Ele-de-France''"
  by (simp add: percent_encoded_def ascii_def unreserved_def utf8_def percent_def hex_digit_def)

lemma click_path_example: "click_path (206 # ascii ''le-de-France'') = ascii ''R'' @ 233 # ascii ''gions/%C3%8Ele-de-France.HTML''"
  by (simp add: click_path_def percent_encoded_example) (simp add: ascii_def)

text \<open>
  Claim C9. For a feature whose properties hold a non-empty string \<^verbatim>\<open>nom\<close> (without
  lone surrogate), the click handler navigates to the folder prefix, then the
  percent-encoded name, then \<^verbatim>\<open>.HTML\<close>; every path the handler navigates to has this
  shape, the name being \<^verbatim>\<open>nom\<close>; and the name Ile-de-France (its first letter
  being I circumflex, code point 206) gives \<^verbatim>\<open>Regions/%C3%8Ele-de-France.HTML\<close>,
  with e acute in the folder name. The handler is installed under the guard
  \<^verbatim>\<open>f.properties.nom\<close>: a feature without \<^verbatim>\<open>nom\<close> has no click target.
\<close>

theorem click_target_path:
  "(js_prop f (ascii ''properties'') = Some (JDict pkv)
      \<and> map_of pkv (ascii ''nom'') = Some (JStr s) \<and> s \<noteq> []
      \<and> (\<forall>c \<in> set s. \<not> is_surrogate c) \<longrightarrow>
    attach tostr f = Navigate (click_path s))
   \<and> (attach tostr f = Navigate url \<longrightarrow>
        (\<exists>props nom enc. js_prop f (ascii ''properties'') = Some props
           \<and> js_prop props (ascii ''nom'') = Some nom \<and> js_truthy nom
           \<and> encodeURIComponent (case nom of JStr s \<Rightarrow> s | _ \<Rightarrow> tostr nom) = Some enc
           \<and> url = ascii ''R'' @ 233 # ascii ''gions/'' @ enc @ ascii ''.HTML''))
   \<and> (js_prop f (ascii ''properties'') = Some (JDict pkv)
      \<and> map_of pkv (ascii ''nom'') = None \<longrightarrow> attach tostr f = NoHandler)
   \<and> click_path (206 # ascii ''le-de-France'') =
       ascii ''R'' @ 233 # ascii ''gions/%C3%8Ele-de-France.HTML''"
proof (intro conjI impI)
  assume h: "js_prop f (ascii ''properties'') = Some (JDict pkv)
      \<and> map_of pkv (ascii ''nom'') = Some (JStr s) \<and> s \<noteq> []
      \<and> (\<forall>c \<in> set s. \<not> is_surrogate c)"
  then have h1: "js_prop f (ascii ''properties'') = Some (JDict pkv)"
    and h2: "map_of pkv (ascii ''nom'') = Some (JStr s)"
    and h3: "s \<noteq> []"
    and h4: "\<forall>c \<in> set s. \<not> is_surrogate c"
    by blast+
  show "attach tostr f = Navigate (click_path s)"
    by (rule attach_named [OF h1 h2 h3 h4])
next
  assume "attach tostr f = Navigate url"
  then show "\<exists>props nom enc. js_prop f (ascii ''properties'') = Some props
           \<and> js_prop props (ascii ''nom'') = Some nom \<and> js_truthy nom
           \<and> encodeURIComponent (case nom of JStr s \<Rightarrow> s | _ \<Rightarrow> tostr nom) = Some enc
           \<and> url = ascii ''R'' @ 233 # ascii ''gions/'' @ enc @ ascii ''.HTML''"
    by (rule attach_Navigate)
next
  assume "js_prop f (ascii ''properties'') = Some (JDict pkv) \<and> map_of pkv (ascii ''nom'') = None"
  then show "attach tostr f = NoHandler"
    by (simp add: attach_def js_prop_def)
qed (rule click_path_example)

theorem click_target_path_witness:
  "attach no_conversion (named_feature (206 # ascii ''le-de-France'')) =
     Navigate (ascii ''R'' @ 233 # ascii ''gions/%C3%8Ele-de-France.HTML'')
   \<and> attach no_conversion
        (JDict [(ascii ''properties'', JDict [(ascii ''name'', JStr (ascii ''Corse''))])]) =
     NoHandler"
  using click_target_path
          [where f = "named_feature (206 # ascii ''le-de-France'')"
             and pkv = "[(ascii ''nom'', JStr (206 # ascii ''le-de-France''))]"
             and s = "206 # ascii ''le-de-France''" and tostr = no_conversion]
        click_target_path
          [where f = "JDict [(ascii ''properties'', JDict [(ascii ''name'', JStr (ascii ''Corse''))])]"
             and pkv = "[(ascii ''name'', JStr (ascii ''Corse''))]" and tostr = no_conversion]
  by (simp add: named_feature_def js_prop_def is_surrogate_def ascii_def)

section \<open>Properties of the Source Resolver\<close>

lemma latest_Cons: "latest b (e # es) = latest (Some e) es"
  by (simp add: latest_def)


lemma errors_of_Cons:
  "errors_of body (u # us) = (case body u of Inl e \<Rightarrow> [e] | Inr r \<Rightarrow> []) @ errors_of body us"
  by (simp add: errors_of_def)

lemma errors_of_Nil [simp]: "errors_of body [] = []"
  by (simp add: errors_of_def)

lemma try_urls_all_fail:
  "\<forall>u \<in> set us. \<not> succeeds body u \<Longrightarrow>
   try_urls body us st =
     (None, \<lparr>last_err = latest (last_err st) (errors_of body us), contacted = contacted st @ us\<rparr>)"
proof (induction us arbitrary: st)
  case Nil
  then show ?case by (simp add: latest_def)
next
  case (Cons u us)
  then have IH: "\<And>st. try_urls body us st =
     (None, \<lparr>last_err = latest (last_err st) (errors_of body us), contacted = contacted st @ us\<rparr>)"
    by simp
  from Cons.prems have nu: "\<not> succeeds body u" by simp
  show ?case
  proof (cases "body u")
    case (Inl e)
    then show ?thesis
      by (simp add: IH errors_of_Cons latest_Cons)
  next
    case (Inr r)
    with nu have "r = None" by (cases r) (simp_all add: succeeds_def)
    with Inr show ?thesis
      by (simp add: IH errors_of_Cons)
  qed
qed

lemma try_urls_first_success:
  "\<forall>x \<in> set pre. \<not> succeeds body x \<Longrightarrow> body u = Inr (Some data) \<Longrightarrow>
   try_urls body (pre @ u # post) st =
     (Some data, \<lparr>last_err = latest (last_err st) (errors_of body pre),
                  contacted = contacted st @ pre @ [u]\<rparr>)"
proof (induction pre arbitrary: st)
  case Nil
  then show ?case by (simp add: latest_def)
next
  case (Cons x pre)
  then have IH: "\<And>st. try_urls body (pre @ u # post) st =
     (Some data, \<lparr>last_err = latest (last_err st) (errors_of body pre),
                  contacted = contacted st @ pre @ [u]\<rparr>)"
    by simp
  from Cons.prems have nx: "\<not> succeeds body x" by simp
  show ?case
  proof (cases "body x")
    case (Inl e)
    then show ?thesis
      by (simp add: IH errors_of_Cons latest_Cons)
  next
    case (Inr r)
    with nx have "r = None" by (cases r) (simp_all add: succeeds_def)
    with Inr show ?thesis
      by (simp add: IH errors_of_Cons)
  qed
qed


lemma fetch_primary_success:
  assumes "candidate_urls = pre @ u # post"
    and "\<forall>x \<in> set pre. \<not> succeeds (attempt_primary net) x"
    and "attempt_primary net u = Inr (Some data)"
  shows "fetch_regions_geojson net = (Returned data, pre @ [u])"
  by (simp add: fetch_regions_geojson_def assms(1) try_urls_first_success [OF assms(2) assms(3)])

lemma fetch_fallback_success:
  assumes "\<forall>x \<in> set candidate_urls. \<not> succeeds (attempt_primary net) x"
    and "fallbacks = pre @ u # post"
    and "\<forall>x \<in> set pre. \<not> succeeds (attempt_fallback net) x"
    and "attempt_fallback net u = Inr (Some data)"
  shows "fetch_regions_geojson net = (Returned data, candidate_urls @ pre @ [u])"
  by (simp add: fetch_regions_geojson_def try_urls_all_fail [OF assms(1)] assms(2)
        try_urls_first_success [OF assms(3) assms(4)])

lemma try_urls_contacted:
  "\<exists>n. contacted (snd (try_urls body us st)) = contacted st @ take n us"
proof (induction us arbitrary: st)
  case Nil
  then show ?case by simp
next
  case (Cons u us)
  show ?case
  proof (cases "body u")
    case (Inl e)
    from Cons [of "\<lparr>last_err = Some e, contacted = contacted st @ [u]\<rparr>"]
    obtain n where "contacted (snd (try_urls body us \<lparr>last_err = Some e, contacted = contacted st @ [u]\<rparr>))
        = (contacted st @ [u]) @ take n us" by auto
    with Inl have "contacted (snd (try_urls body (u # us) st)) = contacted st @ take (Suc n) (u # us)"
      by simp
    then show ?thesis by blast
  next
    case (Inr r)
    show ?thesis
    proof (cases r)
      case None
      from Cons [of "\<lparr>last_err = last_err st, contacted = contacted st @ [u]\<rparr>"]
      obtain n where "contacted (snd (try_urls body us \<lparr>last_err = last_err st, contacted = contacted st @ [u]\<rparr>))
          = (contacted st @ [u]) @ take n us" by auto
      with Inr None have "contacted (snd (try_urls body (u # us) st)) = contacted st @ take (Suc n) (u # us)"
        by simp
      then show ?thesis by blast
    next
      case (Some data)
      with Inr have "contacted (snd (try_urls body (u # us) st)) = contacted st @ take (Suc 0) (u # us)"
        by simp
      then show ?thesis by blast
    qed
  qed
qed

lemma try_urls_None_contacted:
  "try_urls body us st = (None, st') \<Longrightarrow> contacted st' = contacted st @ us"
proof (induction us arbitrary: st)
  case Nil
  then show ?case by simp
next
  case (Cons u us)
  then show ?case
    by (cases "body u") (auto split: option.splits)
qed

lemma fetch_contacted:
  "\<exists>n. snd (fetch_regions_geojson net) = take n (candidate_urls @ fallbacks)"
proof -
  let ?st0 = "\<lparr>last_err = None, contacted = []\<rparr>"
  obtain r st where p: "try_urls (attempt_primary net) candidate_urls ?st0 = (r, st)"
    by (cases "try_urls (attempt_primary net) candidate_urls ?st0")
  from try_urls_contacted [of "attempt_primary net" candidate_urls ?st0] p
  obtain n where n: "contacted st = take n candidate_urls" by auto
  show ?thesis
  proof (cases r)
    case (Some data)
    have "take n candidate_urls = take (min n (length candidate_urls)) (candidate_urls @ fallbacks)"
      by (cases "n \<le> length candidate_urls") (simp_all add: min_def)
    with Some p n have "snd (fetch_regions_geojson net) =
        take (min n (length candidate_urls)) (candidate_urls @ fallbacks)"
      by (simp add: fetch_regions_geojson_def)
    then show ?thesis by blast
  next
    case None
    with p have c: "contacted st = candidate_urls"
      using try_urls_None_contacted [of "attempt_primary net" candidate_urls ?st0 st] by simp
    obtain r' st' where f: "try_urls (attempt_fallback net) fallbacks st = (r', st')"
      by (cases "try_urls (attempt_fallback net) fallbacks st")
    from try_urls_contacted [of "attempt_fallback net" fallbacks st] f c
    obtain m where "contacted st' = candidate_urls @ take m fallbacks" by auto
    then have "contacted st' = take (length candidate_urls + m) (candidate_urls @ fallbacks)"
      by simp
    with None p f have "snd (fetch_regions_geojson net) =
        take (length candidate_urls + m) (candidate_urls @ fallbacks)"
      by (cases r') (simp_all add: fetch_regions_geojson_def)
    then show ?thesis by blast
  qed
qed

lemma distinct_candidates: "distinct (candidate_urls @ fallbacks)"
  by (simp add: candidate_urls_def fallbacks_def)

lemma fetch_contacted_distinct: "distinct (snd (fetch_regions_geojson net))"
proof -
  from fetch_contacted [of net] obtain n
    where "snd (fetch_regions_geojson net) = take n (candidate_urls @ fallbacks)" ..
  moreover have "distinct (take n (candidate_urls @ fallbacks))"
    using distinct_candidates by (rule distinct_take)
  ultimately show ?thesis by (simp only:)
qed

lemma attempt_raises:
  "net u = TransportError m \<Longrightarrow> attempt_primary net u = Inl (RequestException m)"
  "net u = TransportError m \<Longrightarrow> attempt_fallback net u = Inl (RequestException m)"
  "net u = BadStatus m \<Longrightarrow> attempt_primary net u = Inl (HTTPError m)"
  "net u = BadStatus m \<Longrightarrow> attempt_fallback net u = Inl (HTTPError m)"
  "net u = NotJSON m \<Longrightarrow> attempt_primary net u = Inl (JSONDecodeError m)"
  "net u = NotJSON m \<Longrightarrow> attempt_fallback net u = Inl (JSONDecodeError m)"
  by (simp_all add: attempt_primary_def attempt_fallback_def get_json_def)

lemma attempt_no_features:
  "net u = Body data \<Longrightarrow> \<not> has_features data \<Longrightarrow> attempt_primary net u = Inr None"
  "net u = Body data \<Longrightarrow> \<not> has_features data \<Longrightarrow> attempt_fallback net u = Inr None"
  by (simp_all add: attempt_primary_def attempt_fallback_def get_json_def)

lemma attempt_primary_success:
  "net u = Body data \<Longrightarrow> has_features data \<Longrightarrow> attempt_primary net u = Inr (Some data)"
  by (simp add: attempt_primary_def get_json_def)

lemma attempt_fallback_success:
  "net u = Body (JDict dkv) \<Longrightarrow> has_features (JDict dkv) \<Longrightarrow> normalize dkv = Inr data \<Longrightarrow>
   attempt_fallback net u = Inr (Some data)"
  by (simp add: attempt_fallback_def get_json_def)

lemma attempt_fallback_raises:
  "net u = Body (JDict dkv) \<Longrightarrow> has_features (JDict dkv) \<Longrightarrow> normalize dkv = Inl e \<Longrightarrow>
   attempt_fallback net u = Inl e"
  by (simp add: attempt_fallback_def get_json_def)

lemma has_features_iff:
  "has_features data \<longleftrightarrow> (\<exists>kvs. data = JDict kvs \<and> truthy (dict_get kvs (ascii ''features'')))"
  by (cases data) (simp_all add: has_features_def)

lemma normalize_raises_on_non_list:
  assumes "has_features (JDict dkv)"
    and "\<forall>fs. dict_get dkv (ascii ''features'') \<noteq> JList fs"
  shows "\<exists>e. normalize dkv = Inl e"
proof (cases "map_of dkv (ascii ''features'')")
  case None
  with assms(1) show ?thesis
    by (simp add: has_features_def dict_get_def dict_get_default_def)
next
  case (Some v)
  with assms have v: "truthy v" "\<forall>fs. v \<noteq> JList fs"
    by (simp_all add: has_features_def dict_get_def dict_get_default_def)
  then show ?thesis
    by (cases v) (auto simp: normalize_def dict_get_default_def Some split: list.splits)
qed

lemma fetch_net_odd:
  "fetch_regions_geojson net_odd =
     (Returned (JDict [(ascii ''features'', JList [named_feature (ascii ''Corse'')])]),
      candidate_urls @ fallbacks)"
  by (simp add: fetch_regions_geojson_def attempt_primary_def attempt_fallback_def get_json_def
        net_odd_def has_features_def dict_get_def dict_get_default_def candidate_urls_def
        fallbacks_def normalize_def normalize_feature_def normalize_props_def copy_nom_def
        py_in_def py_or_def no_attribute_def named_feature_def ascii_eq_iff)

subsection \<open>The claims about the Source Resolver\<close>



text \<open>
  Claim C5, amended. In either loop, a candidate that fails by a transport error, a
  non-success status or a body that is not JSON has its exception recorded as the last
  error, and the loop goes on with the next candidate. A candidate whose JSON body is
  not a dict, or is a dict whose value under \<^verbatim>\<open>"features"\<close> is missing or false (null,
  an empty list, zero, an empty string), raises nothing: the loop goes on with the next
  candidate and the last error stays what it was. A dict whose value under
  \<^verbatim>\<open>"features"\<close> is true is not a failure in the primary loop, list or not: it is
  returned. In the fallback loop, whenever the normalisation of such a dict raises, the
  exception is recorded like the others and the loop goes on; the normalisation does
  raise when the value is true and is not a list. No URL is requested twice.
\<close>

theorem failed_candidate_is_skipped:
  assumes "body = attempt_primary net \<or> body = attempt_fallback net"
  shows "(net u = TransportError m \<longrightarrow>
            try_urls body (u # us) st =
            try_urls body us \<lparr>last_err = Some (RequestException m), contacted = contacted st @ [u]\<rparr>)
       \<and> (net u = BadStatus m \<longrightarrow>
            try_urls body (u # us) st =
            try_urls body us \<lparr>last_err = Some (HTTPError m), contacted = contacted st @ [u]\<rparr>)
       \<and> (net u = NotJSON m \<longrightarrow>
            try_urls body (u # us) st =
            try_urls body us \<lparr>last_err = Some (JSONDecodeError m), contacted = contacted st @ [u]\<rparr>)
       \<and> (net u = Body data \<and> \<not> has_features data \<longrightarrow>
            try_urls body (u # us) st =
            try_urls body us \<lparr>last_err = last_err st, contacted = contacted st @ [u]\<rparr>)
       \<and> distinct (snd (fetch_regions_geojson net))
       \<and> (has_features data \<longleftrightarrow>
            (\<exists>kvs. data = JDict kvs \<and> truthy (dict_get kvs (ascii ''features''))))
       \<and> (body = attempt_primary net \<and> net u = Body data \<and> has_features data \<longrightarrow>
            try_urls body (u # us) st =
            (Some data, \<lparr>last_err = last_err st, contacted = contacted st @ [u]\<rparr>))
       \<and> (body = attempt_fallback net \<and> net u = Body (JDict dkv) \<and> has_features (JDict dkv)
            \<and> normalize dkv = Inl e \<longrightarrow>
            try_urls body (u # us) st =
            try_urls body us \<lparr>last_err = Some e, contacted = contacted st @ [u]\<rparr>)
       \<and> (has_features (JDict dkv) \<and> (\<forall>fs. dict_get dkv (ascii ''features'') \<noteq> JList fs) \<longrightarrow>
            (\<exists>x. normalize dkv = Inl x))"
proof -
  have skip: "(net u = TransportError m \<longrightarrow>
            try_urls body (u # us) st =
            try_urls body us \<lparr>last_err = Some (RequestException m), contacted = contacted st @ [u]\<rparr>)
       \<and> (net u = BadStatus m \<longrightarrow>
            try_urls body (u # us) st =
            try_urls body us \<lparr>last_err = Some (HTTPError m), contacted = contacted st @ [u]\<rparr>)
       \<and> (net u = NotJSON m \<longrightarrow>
            try_urls body (u # us) st =
            try_urls body us \<lparr>last_err = Some (JSONDecodeError m), contacted = contacted st @ [u]\<rparr>)
       \<and> (net u = Body data \<and> \<not> has_features data \<longrightarrow>
            try_urls body (u # us) st =
            try_urls body us \<lparr>last_err = last_err st, contacted = contacted st @ [u]\<rparr>)"
    using assms by (auto simp: attempt_raises attempt_no_features)
  have primary: "body = attempt_primary net \<and> net u = Body data \<and> has_features data \<longrightarrow>
            try_urls body (u # us) st =
            (Some data, \<lparr>last_err = last_err st, contacted = contacted st @ [u]\<rparr>)"
    by (auto simp: attempt_primary_success)
  have fallback: "body = attempt_fallback net \<and> net u = Body (JDict dkv) \<and> has_features (JDict dkv)
            \<and> normalize dkv = Inl e \<longrightarrow>
            try_urls body (u # us) st =
            try_urls body us \<lparr>last_err = Some e, contacted = contacted st @ [u]\<rparr>"
    by (auto simp: attempt_fallback_raises)
  have raises: "has_features (JDict dkv) \<and> (\<forall>fs. dict_get dkv (ascii ''features'') \<noteq> JList fs) \<longrightarrow>
            (\<exists>x. normalize dkv = Inl x)"
    using normalize_raises_on_non_list [of dkv] by blast
  from skip primary fallback raises fetch_contacted_distinct [of net] has_features_iff [of data]
  show ?thesis by blast
qed

theorem failed_candidate_is_skipped_witness:
  "try_urls (attempt_primary (always (TransportError (ascii ''timed out'')))) [''u'']
      \<lparr>last_err = None, contacted = []\<rparr> =
     (None, \<lparr>last_err = Some (RequestException (ascii ''timed out'')), contacted = [''u'']\<rparr>)
   \<and> try_urls (attempt_primary (always (BadStatus (ascii ''404'')))) [''u'']
      \<lparr>last_err = None, contacted = []\<rparr> =
     (None, \<lparr>last_err = Some (HTTPError (ascii ''404'')), contacted = [''u'']\<rparr>)
   \<and> try_urls (attempt_fallback (always (NotJSON (ascii ''Expecting value'')))) [''u'']
      \<lparr>last_err = None, contacted = []\<rparr> =
     (None, \<lparr>last_err = Some (JSONDecodeError (ascii ''Expecting value'')), contacted = [''u'']\<rparr>)
   \<and> try_urls (attempt_fallback (always (Body (JDict [])))) [''u'']
      \<lparr>last_err = Some (HTTPError (ascii ''404'')), contacted = []\<rparr> =
     (None, \<lparr>last_err = Some (HTTPError (ascii ''404'')), contacted = [''u'']\<rparr>)
   \<and> distinct (snd (fetch_regions_geojson (always (Body (JDict [])))))
   \<and> try_urls (attempt_primary (always (Body (JDict [(ascii ''features'', JInt 5)])))) [''u'']
      \<lparr>last_err = None, contacted = []\<rparr> =
     (Some (JDict [(ascii ''features'', JInt 5)]), \<lparr>last_err = None, contacted = [''u'']\<rparr>)
   \<and> try_urls (attempt_fallback (always (Body (JDict [(ascii ''features'', JInt 5)])))) [''u'']
      \<lparr>last_err = None, contacted = []\<rparr> =
     (None, \<lparr>last_err = Some (not_iterable (JInt 5)), contacted = [''u'']\<rparr>)
   \<and> (\<exists>x. normalize [(ascii ''features'', JInt 5)] = Inl x)"
  using
    failed_candidate_is_skipped [where body = "attempt_primary (always (TransportError (ascii ''timed out'')))"
          and net = "always (TransportError (ascii ''timed out''))" and u = "''u''"
          and m = "ascii ''timed out''" and us = "[]"
          and st = "\<lparr>last_err = None, contacted = []\<rparr>"]
    failed_candidate_is_skipped [where body = "attempt_primary (always (BadStatus (ascii ''404'')))"
          and net = "always (BadStatus (ascii ''404''))" and u = "''u''"
          and m = "ascii ''404''" and us = "[]"
          and st = "\<lparr>last_err = None, contacted = []\<rparr>"]
    failed_candidate_is_skipped [where body = "attempt_fallback (always (NotJSON (ascii ''Expecting value'')))"
          and net = "always (NotJSON (ascii ''Expecting value''))" and u = "''u''"
          and m = "ascii ''Expecting value''" and us = "[]"
          and st = "\<lparr>last_err = None, contacted = []\<rparr>"]
    failed_candidate_is_skipped [where body = "attempt_fallback (always (Body (JDict [])))"
          and net = "always (Body (JDict []))" and u = "''u''"
          and data = "JDict []" and us = "[]"
          and st = "\<lparr>last_err = Some (HTTPError (ascii ''404'')), contacted = []\<rparr>"]
    failed_candidate_is_skipped
         [where body = "attempt_primary (always (Body (JDict [(ascii ''features'', JInt 5)])))"
          and net = "always (Body (JDict [(ascii ''features'', JInt 5)]))" and u = "''u''"
          and data = "JDict [(ascii ''features'', JInt 5)]" and us = "[]"
          and st = "\<lparr>last_err = None, contacted = []\<rparr>"]
    failed_candidate_is_skipped
         [where body = "attempt_fallback (always (Body (JDict [(ascii ''features'', JInt 5)])))"
          and net = "always (Body (JDict [(ascii ''features'', JInt 5)]))" and u = "''u''"
          and dkv = "[(ascii ''features'', JInt 5)]" and e = "not_iterable (JInt 5)"
          and us = "[]" and st = "\<lparr>last_err = None, contacted = []\<rparr>"]
  by (simp add: always_def has_features_def dict_get_def dict_get_default_def normalize_def)

text \<open>
  Claim C5 as it is stated fails: when every candidate answers with a JSON body that
  has no features, eight candidates fail and no error is ever recorded; the final
  message ends with \<^verbatim>\<open>None\<close>.
\<close>

theorem featureless_body_records_no_error:
  "try_urls (attempt_primary (always (Body (JDict [])))) candidate_urls
      \<lparr>last_err = None, contacted = []\<rparr> =
     (None, \<lparr>last_err = None, contacted = candidate_urls\<rparr>)
   \<and> fetch_regions_geojson (always (Body (JDict []))) =
     (SystemExit (exit_prefix @ ascii ''None''), candidate_urls @ fallbacks)"
  by (simp add: fetch_regions_geojson_def attempt_primary_def attempt_fallback_def get_json_def
        always_def has_features_def dict_get_def dict_get_default_def candidate_urls_def
        fallbacks_def format_last_err_def)

text \<open>
  Claim C6, amended. The function returns the data of the first candidate, in the fixed
  order, whose attempt succeeds, and requests no later candidate. In the primary tier an
  attempt succeeds when the body decodes to a dict with a true value under
  \<^verbatim>\<open>"features"\<close>, and the body is returned as it is. In the fallback tier the
  normalisation pass must also end without exception, and its result is returned.
\<close>

theorem first_success_is_returned:
  "(candidate_urls = pre @ u # post
      \<and> (\<forall>x \<in> set pre. \<not> succeeds (attempt_primary net) x)
      \<and> net u = Body data \<and> has_features data \<longrightarrow>
    fetch_regions_geojson net = (Returned data, pre @ [u]))
   \<and> ((\<forall>x \<in> set candidate_urls. \<not> succeeds (attempt_primary net) x)
      \<and> fallbacks = pre @ u # post
      \<and> (\<forall>x \<in> set pre. \<not> succeeds (attempt_fallback net) x)
      \<and> net u = Body (JDict dkv) \<and> has_features (JDict dkv) \<and> normalize dkv = Inr data \<longrightarrow>
    fetch_regions_geojson net = (Returned data, candidate_urls @ pre @ [u]))"
  by (auto intro: fetch_primary_success fetch_fallback_success
        simp: attempt_primary_success attempt_fallback_success)

text \<open>
  Claim C6 as it is stated fails: the first response that decodes to a dict with a
  non-empty list of features is that of the first fallback URL, but the normalisation
  raises on its feature 5, the candidate is passed over and the response of the second
  fallback URL is returned.
\<close>

theorem first_valid_response_not_returned:
  "first_valid net_odd (candidate_urls @ fallbacks) =
     Some (Body (JDict [(ascii ''features'', JList [JInt 5])]))
   \<and> fst (fetch_regions_geojson net_odd) =
     Returned (JDict [(ascii ''features'', JList [named_feature (ascii ''Corse'')])])"
  by (simp add: fetch_net_odd)
     (simp add: first_valid_def valid_collection_def net_odd_def candidate_urls_def fallbacks_def)

theorem first_success_is_returned_witness:
  "fetch_regions_geojson net_third =
     (Returned two_features, [candidate_urls ! 0, candidate_urls ! 1, candidate_urls ! 2])
   \<and> fetch_regions_geojson net_odd =
     (Returned (JDict [(ascii ''features'', JList [named_feature (ascii ''Corse'')])]),
      candidate_urls @ fallbacks)"
proof -
  have a1: "candidate_urls = [candidate_urls ! 0, candidate_urls ! 1] @ candidate_urls ! 2 # drop 3 candidate_urls"
    by (simp add: candidate_urls_def)
  have a2: "\<forall>x \<in> set [candidate_urls ! 0, candidate_urls ! 1]. \<not> succeeds (attempt_primary net_third) x"
    by (simp add: succeeds_def attempt_primary_def get_json_def net_third_def candidate_urls_def)
  have a3: "net_third (candidate_urls ! 2) = Body two_features"
    by (simp add: net_third_def)
  have a4: "has_features two_features"
    by (simp add: has_features_def two_features_def dict_get_def dict_get_default_def)
  have b1: "\<forall>x \<in> set candidate_urls. \<not> succeeds (attempt_primary net_odd) x"
    by (simp add: succeeds_def attempt_primary_def get_json_def net_odd_def candidate_urls_def
          fallbacks_def)
  have b2: "fallbacks = [fallbacks ! 0] @ fallbacks ! 1 # []"
    by (simp add: fallbacks_def)
  have b3: "\<forall>x \<in> set [fallbacks ! 0]. \<not> succeeds (attempt_fallback net_odd) x"
    by (simp add: succeeds_def attempt_fallback_def get_json_def net_odd_def fallbacks_def
          has_features_def dict_get_def dict_get_default_def normalize_def
          normalize_feature_def)
  have b4: "net_odd (fallbacks ! 1) =
      Body (JDict [(ascii ''features'', JList [named_feature (ascii ''Corse'')])])"
    by (simp add: net_odd_def fallbacks_def)
  have b5: "has_features (JDict [(ascii ''features'', JList [named_feature (ascii ''Corse'')])])"
    by (simp add: has_features_def dict_get_def dict_get_default_def)
  have b6: "normalize [(ascii ''features'', JList [named_feature (ascii ''Corse'')])] =
      Inr (JDict [(ascii ''features'', JList [named_feature (ascii ''Corse'')])])"
    by (simp add: normalize_def normalize_feature_def normalize_props_def copy_nom_def
          py_in_def py_or_def named_feature_def dict_get_default_def ascii_eq_iff)
  from first_success_is_returned [where pre = "[candidate_urls ! 0, candidate_urls ! 1]" and u = "candidate_urls ! 2"
             and post = "drop 3 candidate_urls" and net = net_third and data = two_features]
    a1 a2 a3 a4
  have "fetch_regions_geojson net_third =
     (Returned two_features, [candidate_urls ! 0, candidate_urls ! 1, candidate_urls ! 2])"
    by simp
  moreover
  from first_success_is_returned [where pre = "[fallbacks ! 0]" and u = "fallbacks ! 1" and post = "[]"
             and net = net_odd
             and dkv = "[(ascii ''features'', JList [named_feature (ascii ''Corse'')])]"
             and data = "JDict [(ascii ''features'', JList [named_feature (ascii ''Corse'')])]"]
    b1 b2 b3 b4 b5 b6
  have "fetch_regions_geojson net_odd =
     (Returned (JDict [(ascii ''features'', JList [named_feature (ascii ''Corse'')])]),
      candidate_urls @ fallbacks)"
    by simp
  ultimately show ?thesis by simp
qed

end
